theory Spec2Isabelle
  imports Complex_Main "HOL-Library.Char_ord" "HOL-Library.List_Lexorder"
    "HOL-Library.Product_Lexorder" "HOL-Library.Multiset" "HOL-Library.Word"
begin

section \<open>Numbers of a float64 column\<close>

text \<open>
  The emissions amounts, the totals and the growth rates are float64 columns of a
  pandas frame. A cell is a finite number, one of the two infinities, or NaN, which is
  how pandas writes a missing number. The model keeps the special values of IEEE 754 and
  computes on finite numbers exactly: rounding and overflow are left out, and the two
  zeros are one (a finite number divided by zero takes its sign from the numerator).
\<close>

datatype fl = Fin real | PInf | NInf | NaN

fun fadd :: "fl \<Rightarrow> fl \<Rightarrow> fl" where
  "fadd NaN b = NaN"
| "fadd a NaN = NaN"
| "fadd PInf NInf = NaN"
| "fadd NInf PInf = NaN"
| "fadd PInf b = PInf"
| "fadd a PInf = PInf"
| "fadd NInf b = NInf"
| "fadd a NInf = NInf"
| "fadd (Fin x) (Fin y) = Fin (x + y)"

fun fneg :: "fl \<Rightarrow> fl" where
  "fneg (Fin x) = Fin (- x)"
| "fneg PInf = NInf"
| "fneg NInf = PInf"
| "fneg NaN = NaN"

definition fsub :: "fl \<Rightarrow> fl \<Rightarrow> fl" where
  "fsub a b = fadd a (fneg b)"

fun fmul :: "fl \<Rightarrow> fl \<Rightarrow> fl" where
  "fmul NaN b = NaN"
| "fmul a NaN = NaN"
| "fmul (Fin x) (Fin y) = Fin (x * y)"
| "fmul PInf (Fin y) = (if y = 0 then NaN else if 0 < y then PInf else NInf)"
| "fmul NInf (Fin y) = (if y = 0 then NaN else if 0 < y then NInf else PInf)"
| "fmul (Fin x) PInf = (if x = 0 then NaN else if 0 < x then PInf else NInf)"
| "fmul (Fin x) NInf = (if x = 0 then NaN else if 0 < x then NInf else PInf)"
| "fmul PInf PInf = PInf"
| "fmul NInf NInf = PInf"
| "fmul PInf NInf = NInf"
| "fmul NInf PInf = NInf"

fun fdiv :: "fl \<Rightarrow> fl \<Rightarrow> fl" where
  "fdiv NaN b = NaN"
| "fdiv a NaN = NaN"
| "fdiv (Fin x) (Fin y) =
     (if y = 0 then (if x = 0 then NaN else if 0 < x then PInf else NInf)
      else Fin (x / y))"
| "fdiv (Fin x) PInf = Fin 0"
| "fdiv (Fin x) NInf = Fin 0"
| "fdiv PInf (Fin y) = (if 0 \<le> y then PInf else NInf)"
| "fdiv NInf (Fin y) = (if 0 \<le> y then NInf else PInf)"
| "fdiv PInf PInf = NaN"
| "fdiv PInf NInf = NaN"
| "fdiv NInf PInf = NaN"
| "fdiv NInf NInf = NaN"

text \<open>The comparison \<open>a <= b\<close> of two cells; every comparison with NaN is false.\<close>

fun fl_le :: "fl \<Rightarrow> fl \<Rightarrow> bool" where
  "fl_le NaN b = False"
| "fl_le a NaN = False"
| "fl_le NInf b = True"
| "fl_le a PInf = True"
| "fl_le PInf b = False"
| "fl_le a NInf = False"
| "fl_le (Fin x) (Fin y) = (x \<le> y)"

definition isna :: "fl \<Rightarrow> bool" where
  "isna a = (a = NaN)"

definition isinf :: "fl \<Rightarrow> bool" where
  "isinf a = (a = PInf \<or> a = NInf)"

text \<open>
  \<open>Series.sum\<close> and the sum of a group skip the missing cells (\<open>skipna\<close>) and start
  from zero; \<open>mean\<close> divides that sum by the number of cells that are not missing and is
  NaN when there is none.
\<close>

definition pd_sum :: "fl list \<Rightarrow> fl" where
  "pd_sum xs = foldl fadd (Fin 0) (filter (\<lambda>x. \<not> isna x) xs)"

definition pd_mean :: "fl list \<Rightarrow> fl" where
  "pd_mean xs =
     (let ys = filter (\<lambda>x. \<not> isna x) xs
      in if ys = [] then NaN else fdiv (pd_sum ys) (Fin (real (length ys))))"

text \<open>
  Sums of float64 cells that are exact. When the cells are whole numbers whose absolute
  values add up to at most \<open>2^53\<close>, every sum of some of them, taken in any order, is a
  whole number of at most that size; float64 holds each such number, so no addition
  rounds, and the sum the program computes is the sum of the numbers. \<open>exact_sum\<close> is
  that condition on a list of cells, \<open>fin_value\<close> the number a finite cell holds. Where
  a theorem below compares sums of the same cells taken in different groupings, it does
  so for cells that meet this condition.
\<close>

fun whole :: "fl \<Rightarrow> bool" where
  "whole (Fin x) = (real_of_int \<lfloor>x\<rfloor> = x)"
| "whole PInf = False"
| "whole NInf = False"
| "whole NaN = False"

fun magnitude :: "fl \<Rightarrow> real" where
  "magnitude (Fin x) = \<bar>x\<bar>"
| "magnitude PInf = 0"
| "magnitude NInf = 0"
| "magnitude NaN = 0"

fun fin_value :: "fl \<Rightarrow> real" where
  "fin_value (Fin x) = x"
| "fin_value PInf = 0"
| "fin_value NInf = 0"
| "fin_value NaN = 0"

definition exact_sum :: "fl list \<Rightarrow> bool" where
  "exact_sum xs = ((\<forall>x \<in> set xs. whole x) \<and> sum_list (map magnitude xs) \<le> 2 ^ 53)"


section \<open>The tables\<close>

text \<open>
  A frame is the list of its rows, in index order. The file that \<open>load_data\<close> reads
  has the columns country, sector, date and value. A cell of the date column is text, a
  timestamp (when the frame was built in memory from parsed dates) or missing; a cell of
  the value column is text or a number, NaN being the missing one. The country and
  sector columns hold text or nothing.
\<close>

record timestamp =
  ts_day :: nat
  ts_month :: nat
  ts_year :: int

datatype date_cell = DText string | DStamp timestamp | DNull

datatype val_cell = VText string | VNum fl

record raw_row =
  r_country :: "string option"
  r_sector :: "string option"
  r_date :: date_cell
  r_val :: val_cell

text \<open>
  The dtype of a column decides whether it has the \<open>.str\<close> accessor: a column of
  dtype object (text) has it, a numeric column has not. \<open>read_csv\<close> gives a column
  that is empty throughout the dtype float64. The raw frame carries the dtype of its
  country column and that of its sector column, \<open>None\<close> when it has no sector column.
  A name column that is not of dtype object holds no text: its cells are the missing
  one in the rows of such a frame, numbers used as names being outside the model.
\<close>

datatype dtype = Object | Float64 | Int32

record raw_frame =
  raw_rows :: "raw_row list"
  country_dtype :: dtype
  sector_dtype :: "dtype option"

text \<open>
  A row of the processed frame: the date is a timestamp or NaT, year and month are read
  off the date, and the value (column \<open>value\<close> of the source, \<open>val\<close> here) is a
  number.
\<close>

record 'v obs =
  country :: "string option"
  sector :: "string option"
  date :: "timestamp option"
  year :: "int option"
  month :: "int option"
  val :: 'v

text \<open>
  The frame that \<open>clean_data\<close> stores in \<open>processed_data\<close>: its rows, and the dtype
  of its year and month columns, which \<open>.dt.year\<close> and \<open>.dt.month\<close> make int32 when
  every date is a timestamp and float64 when one is NaT.
\<close>

record processed =
  obs_rows :: "fl obs list"
  year_dtype :: dtype

text \<open>The exceptions the methods can raise.\<close>

datatype error = AttributeError | KeyError | UnboundLocalError | ValueError

section \<open>CO2DataProcessor.clean\_data\<close>

text \<open>
  \<open>pd.to_datetime(..., format='%d/%m/%Y', errors='coerce')\<close> and
  \<open>pd.to_numeric(..., errors='coerce')\<close> are library functions: what they make of a
  text is a parameter of the model (\<open>strp\<close> for the date format, \<open>pnum\<close> for numbers,
  NaN when the text is no number), and only how they treat the other cells is fixed
  here: a timestamp and a number pass unchanged, a missing cell stays missing.
\<close>

definition to_datetime :: "(string \<Rightarrow> timestamp option) \<Rightarrow> date_cell \<Rightarrow> timestamp option" where
  "to_datetime strp c = (case c of DText s \<Rightarrow> strp s | DStamp d \<Rightarrow> Some d | DNull \<Rightarrow> None)"

definition to_numeric :: "(string \<Rightarrow> fl) \<Rightarrow> val_cell \<Rightarrow> fl" where
  "to_numeric pnum c = (case c of VText s \<Rightarrow> pnum s | VNum x \<Rightarrow> x)"

text \<open>
  \<open>str.strip()\<close> takes Python's white space off both ends. A character of a text is a
  code point below 256 here, and these are the white space among them (U+0085 and U+00A0
  included); a text with a code point from 256 on is outside the model.
\<close>

definition is_space :: "char \<Rightarrow> bool" where
  "is_space c = (c \<in> set [CHR 0x09, CHR 0x0A, CHR 0x0B, CHR 0x0C, CHR 0x0D,
                          CHR 0x1C, CHR 0x1D, CHR 0x1E, CHR 0x1F, CHR 0x20,
                          CHR 0x85, CHR 0xA0])"

definition strip :: "string \<Rightarrow> string" where
  "strip s = rev (dropWhile is_space (rev (dropWhile is_space s)))"

text \<open>Lines 54 to 60: the date and value columns coerced, year and month derived.\<close>

definition coerce :: "(string \<Rightarrow> timestamp option) \<Rightarrow> (string \<Rightarrow> fl) \<Rightarrow> raw_row \<Rightarrow> fl obs" where
  "coerce strp pnum r =
     (let d = to_datetime strp (r_date r)
      in \<lparr>country = r_country r, sector = r_sector r, date = d,
          year = map_option ts_year d, month = map_option (\<lambda>t. int (ts_month t)) d,
          val = to_numeric pnum (r_val r)\<rparr>)"

text \<open>Line 64: \<open>dropna(subset=['country', 'date', 'value'])\<close>.\<close>

definition critical_ok :: "fl obs \<Rightarrow> bool" where
  "critical_ok r = (country r \<noteq> None \<and> date r \<noteq> None \<and> \<not> isna (val r))"

definition dropna :: "fl obs list \<Rightarrow> fl obs list" where
  "dropna df = filter critical_ok df"

text \<open>
  Lines 57 and 58: the dtype that \<open>.dt.year\<close> and \<open>.dt.month\<close> give, decided on
  the frame before any row is dropped.
\<close>

definition dt_year_dtype :: "fl obs list \<Rightarrow> dtype" where
  "dt_year_dtype df = (if \<forall>r \<in> set df. date r \<noteq> None then Int32 else Float64)"

text \<open>
  Lines 69 and 70: \<open>.str.strip()\<close> on both name columns; a missing name stays
  missing. When the frame has no sector column, line 70 makes one that is \<open>None\<close>
  throughout.
\<close>

definition str_strip_names :: "dtype option \<Rightarrow> fl obs \<Rightarrow> fl obs" where
  "str_strip_names sector_column r =
     r\<lparr>country := map_option strip (country r),
       sector := (case sector_column of None \<Rightarrow> None | Some d \<Rightarrow> map_option strip (sector r))\<rparr>"

text \<open>The frames on which \<open>.str\<close> exists for both name columns.\<close>

definition text_columns :: "raw_frame \<Rightarrow> bool" where
  "text_columns raw_data =
     (country_dtype raw_data = Object \<and> sector_dtype raw_data \<in> {None, Some Object})"

text \<open>
  \<open>clean_data\<close>, lines 45 to 74. It returns the count that line 66 prints, and the
  processed frame or the exception raised. The count is printed before lines 69 and 70
  run, so it is there also when one of them raises \<open>AttributeError\<close>; then nothing is
  returned and \<open>processed_data\<close> is not set.
\<close>

definition clean_data ::
  "(string \<Rightarrow> timestamp option) \<Rightarrow> (string \<Rightarrow> fl) \<Rightarrow> raw_frame \<Rightarrow> nat \<times> (error + processed)" where
  "clean_data strp pnum raw_data =
     (let df = map (coerce strp pnum) (raw_rows raw_data);
          year_month = dt_year_dtype df;
          initial_rows = length df;
          df = dropna df;
          removed_rows = initial_rows - length df
      in (removed_rows,
          if country_dtype raw_data \<noteq> Object then Inl AttributeError
          else if sector_dtype raw_data \<notin> {None, Some Object} then Inl AttributeError
          else Inr \<lparr>obs_rows = map (str_strip_names (sector_dtype raw_data)) df,
                    year_dtype = year_month\<rparr>))"

text \<open>
  A processed frame read as the input of a second call: the dates are timestamps, the
  values numbers, and both name columns are of dtype object, the sector column being
  the one line 70 made when there was none. Year and month are not carried over, since
  lines 57 and 58 overwrite them.
\<close>

definition as_raw_row :: "fl obs \<Rightarrow> raw_row" where
  "as_raw_row r = \<lparr>r_country = country r, r_sector = sector r,
               r_date = (case date r of None \<Rightarrow> DNull | Some d \<Rightarrow> DStamp d),
               r_val = VNum (val r)\<rparr>"

definition as_raw :: "processed \<Rightarrow> raw_frame" where
  "as_raw p = \<lparr>raw_rows = map as_raw_row (obs_rows p), country_dtype = Object,
              sector_dtype = Some Object\<rparr>"

text \<open>
  Instances of the two parsers for worked examples: the zero-padded form dd/mm/yyyy of
  a date of the Gregorian calendar, and an unsigned decimal integer. pandas reads more
  texts than these, which is why the theorems below hold for every parser.
\<close>

definition digit_val :: "char \<Rightarrow> nat option" where
  "digit_val c =
     (if CHR ''0'' \<le> c \<and> c \<le> CHR ''9'' then Some (of_char c - of_char CHR ''0'') else None)"

fun digits_val :: "nat \<Rightarrow> string \<Rightarrow> nat option" where
  "digits_val acc [] = Some acc"
| "digits_val acc (c # cs) =
     (case digit_val c of None \<Rightarrow> None | Some d \<Rightarrow> digits_val (10 * acc + d) cs)"

definition leap_year :: "nat \<Rightarrow> bool" where
  "leap_year y = ((y mod 4 = 0 \<and> y mod 100 \<noteq> 0) \<or> y mod 400 = 0)"

definition days_in_month :: "nat \<Rightarrow> nat \<Rightarrow> nat" where
  "days_in_month y m =
     (if m = 2 then (if leap_year y then 29 else 28)
      else if m \<in> set [4, 6, 9, 11] then 30 else 31)"

definition strptime_dmY :: "string \<Rightarrow> timestamp option" where
  "strptime_dmY s =
     (case s of
        [d1, d2, s1, m1, m2, s2, y1, y2, y3, y4] \<Rightarrow>
          (if s1 = CHR ''/'' \<and> s2 = CHR ''/'' then
             (case (digits_val 0 [d1, d2], digits_val 0 [m1, m2], digits_val 0 [y1, y2, y3, y4]) of
                (Some d, Some m, Some y) \<Rightarrow>
                  (if 1 \<le> m \<and> m \<le> 12 \<and> 1 \<le> d \<and> d \<le> days_in_month y m
                   then Some \<lparr>ts_day = d, ts_month = m, ts_year = int y\<rparr> else None)
              | _ \<Rightarrow> None)
           else None)
      | _ \<Rightarrow> None)"

definition parse_number :: "string \<Rightarrow> fl" where
  "parse_number s =
     (if s = [] then NaN
      else (case digits_val 0 s of None \<Rightarrow> NaN | Some n \<Rightarrow> Fin (real n)))"

text \<open>
  Raw frames for worked examples. In \<open>raw_example\<close> three rows are invalid: a date in
  another format, a missing country, and 29 February of a year that has none beside a
  value that is no number. In \<open>raw_tidy\<close> every row is valid. In \<open>raw_no_sector\<close>
  the sector column is empty throughout, and in \<open>raw_no_country\<close> the country column.
\<close>

definition raw_example :: raw_frame where
  "raw_example =
     \<lparr>raw_rows =
        [\<lparr>r_country = Some '' A '', r_sector = Some ''Energy '', r_date = DText ''01/01/2020'',
           r_val = VText ''100''\<rparr>,
         \<lparr>r_country = Some ''A'', r_sector = None, r_date = DText ''2020-01-01'',
           r_val = VNum (Fin 5)\<rparr>,
         \<lparr>r_country = None, r_sector = Some ''Energy'', r_date = DText ''01/01/2021'',
           r_val = VNum (Fin 7)\<rparr>,
         \<lparr>r_country = Some ''B'', r_sector = Some ''Energy'', r_date = DText ''29/02/2021'',
           r_val = VText ''n/a''\<rparr>,
         \<lparr>r_country = Some ''B'', r_sector = Some ''Energy'', r_date = DText ''01/01/2020'',
           r_val = VNum (Fin 50)\<rparr>],
      country_dtype = Object, sector_dtype = Some Object\<rparr>"

definition raw_no_sector :: raw_frame where
  "raw_no_sector =
     \<lparr>raw_rows =
        [\<lparr>r_country = Some ''A'', r_sector = None, r_date = DText ''01/01/2020'',
           r_val = VNum (Fin 100)\<rparr>,
         \<lparr>r_country = Some ''B'', r_sector = None, r_date = DText ''01/01/2020'',
           r_val = VNum (Fin 50)\<rparr>],
      country_dtype = Object, sector_dtype = Some Float64\<rparr>"


definition raw_tidy :: raw_frame where
  "raw_tidy =
     \<lparr>raw_rows =
        [\<lparr>r_country = Some ''A '', r_sector = Some '' Energy'', r_date = DText ''01/01/2020'',
           r_val = VText ''100''\<rparr>,
         \<lparr>r_country = Some ''B'', r_sector = None, r_date = DText ''01/02/2020'',
           r_val = VNum (Fin 50)\<rparr>],
      country_dtype = Object, sector_dtype = Some Object\<rparr>"

definition raw_no_country :: raw_frame where
  "raw_no_country =
     \<lparr>raw_rows =
        [\<lparr>r_country = None, r_sector = Some ''Energy'', r_date = DText ''01/01/2020'',
           r_val = VNum (Fin 100)\<rparr>,
         \<lparr>r_country = None, r_sector = Some ''Energy'', r_date = DText ''01/01/2021'',
           r_val = VNum (Fin 50)\<rparr>],
      country_dtype = Float64, sector_dtype = Some Object\<rparr>"

text \<open>
  What \<open>clean_data\<close> establishes about a row: the three critical cells are present,
  and year and month are those of the date. A cleaned frame is one whose rows all are so.
\<close>

definition derived_ok :: "fl obs \<Rightarrow> bool" where
  "derived_ok r = (year r = map_option ts_year (date r)
      \<and> month r = map_option (\<lambda>t. int (ts_month t)) (date r))"

definition cleaned :: "fl obs list \<Rightarrow> bool" where
  "cleaned df = (\<forall>r \<in> set df. critical_ok r \<and> derived_ok r)"

section \<open>The pandas operations the methods use\<close>

text \<open>
  With \<open>fadd\<close> as addition and zero as unit the cells form a commutative monoid, so
  the sum of a list does not depend on the order of its elements.
\<close>

instantiation fl :: comm_monoid_add
begin

definition zero_fl :: fl where
  "zero_fl = Fin 0"

definition plus_fl :: "fl \<Rightarrow> fl \<Rightarrow> fl" where
  "plus_fl a b = fadd a b"

instance
proof
  fix a b c :: fl
  show "a + b + c = a + (b + c)"
    unfolding plus_fl_def by (cases a; cases b; cases c) simp_all
  show "a + b = b + a"
    unfolding plus_fl_def by (cases a; cases b) simp_all
  show "0 + a = a"
    unfolding plus_fl_def zero_fl_def by (cases a) simp_all
qed

end

text \<open>
  \<open>df.groupby(key)['value'].sum().reset_index()\<close>: one row per key that occurs, the
  keys in ascending order (\<open>sort=True\<close>), rows whose key is missing left out
  (\<open>dropna=True\<close>), and the sum of the group's values beside each key.
\<close>

definition group_keys :: "('r \<Rightarrow> 'k::linorder option) \<Rightarrow> 'r list \<Rightarrow> 'k list" where
  "group_keys key df = sort (remdups (List.map_filter key df))"

definition groupby_sum ::
  "('r \<Rightarrow> 'k::linorder option) \<Rightarrow> ('r \<Rightarrow> fl) \<Rightarrow> 'r list \<Rightarrow> ('k \<times> fl) list" where
  "groupby_sum key v df =
     map (\<lambda>k. (k, pd_sum (map v (filter (\<lambda>r. key r = Some k) df)))) (group_keys key df)"

text \<open>
  The value column is int64 when \<open>to_numeric\<close> finds a whole number in every cell and
  float64 otherwise. \<open>get_top_emitters\<close> and \<open>get_sectoral_breakdown\<close> run the same
  pandas calls on both, and what differs is the arithmetic of the column: the sum of
  int64 cells is taken modulo \<open>2^64\<close> and read as a signed number, with no check for
  overflow, and the sum of float64 cells skips NaN. A column type is given by its sum
  and by the number a cell stands for when a frame is sorted on the column.
\<close>

record 'v numeric =
  col_sum :: "'v list \<Rightarrow> 'v"
  number :: "'v \<Rightarrow> fl"

definition float64_column :: "fl numeric" where
  "float64_column = \<lparr>col_sum = pd_sum, number = (\<lambda>x. x)\<rparr>"

definition int64_column :: "64 word numeric" where
  "int64_column = \<lparr>col_sum = sum_list, number = (\<lambda>w. Fin (real_of_int (sint w)))\<rparr>"

text \<open>
  \<open>df.groupby(key)['value'].sum().reset_index()\<close> with the sum of the column type.
\<close>

definition groupby_agg ::
  "('v list \<Rightarrow> 'v) \<Rightarrow> ('r \<Rightarrow> 'k::linorder option) \<Rightarrow> ('r \<Rightarrow> 'v) \<Rightarrow> 'r list \<Rightarrow> ('k \<times> 'v) list" where
  "groupby_agg agg key v df =
     map (\<lambda>k. (k, agg (map v (filter (\<lambda>r. key r = Some k) df)))) (group_keys key df)"


text \<open>The key of \<open>groupby(['country', 'year'])\<close>: missing when either cell is.\<close>

definition country_year :: "('v, 'a) obs_scheme \<Rightarrow> (string \<times> int) option" where
  "country_year r =
     (case (country r, year r) of (Some c, Some y) \<Rightarrow> Some (c, y) | _ \<Rightarrow> None)"

text \<open>
  \<open>sort_values(ascending=False)\<close> on a column of numbers: the rows whose cell is a number
  in descending order, then the rows whose cell is NaN (\<open>na_position='last'\<close>). Rows with
  equal cells keep their order here; pandas leaves their order to numpy's sort, and no
  theorem below depends on it.
\<close>

fun insort_desc :: "('a \<Rightarrow> fl) \<Rightarrow> 'a \<Rightarrow> 'a list \<Rightarrow> 'a list" where
  "insort_desc k x [] = [x]"
| "insort_desc k x (y # ys) =
     (if fl_le (k y) (k x) then x # y # ys else y # insort_desc k x ys)"

definition sort_values_desc :: "('a \<Rightarrow> fl) \<Rightarrow> 'a list \<Rightarrow> 'a list" where
  "sort_values_desc k xs =
     foldr (insort_desc k) (filter (\<lambda>x. \<not> isna (k x)) xs) [] @ filter (\<lambda>x. isna (k x)) xs"

text \<open>
  The order \<open>sort_values(ascending=False)\<close> establishes: \<open>a\<close> may stand before \<open>b\<close> when
  \<open>b\<close> is missing or \<open>b <= a\<close>.
\<close>

definition desc_order :: "fl \<Rightarrow> fl \<Rightarrow> bool" where
  "desc_order a b = (isna b \<or> fl_le b a)"

text \<open>
  \<open>head(n)\<close>: the first \<open>n\<close> rows, and for a negative \<open>n\<close> all rows but the last
  \<open>-n\<close>.
\<close>

definition head :: "int \<Rightarrow> 'a list \<Rightarrow> 'a list" where
  "head n xs = (if 0 \<le> n then take (nat n) xs else take (length xs - nat (- n)) xs)"

text \<open>
  \<open>groupby(g)[v].shift(1)\<close>: beside each row the value of the row before it in its own
  group, NaN for the first row of a group. \<open>seen\<close> holds the rows passed so far, the
  latest first.
\<close>

fun group_shift :: "('a \<Rightarrow> 'g) \<Rightarrow> ('a \<Rightarrow> fl) \<Rightarrow> 'a list \<Rightarrow> 'a list \<Rightarrow> fl list" where
  "group_shift g v seen [] = []"
| "group_shift g v seen (x # xs) =
     (case find (\<lambda>y. g y = g x) seen of None \<Rightarrow> NaN | Some y \<Rightarrow> v y)
       # group_shift g v (x # seen) xs"

text \<open>
  \<open>left.merge(right, on=..., how='left')\<close>: the rows of \<open>left\<close> in their order, each
  joined with every row of \<open>right\<close> that has its key, or once with nothing when no row
  has. Keys are compared as pandas compares them in a join: a missing cell equals a
  missing cell.
\<close>

definition merge_left ::
  "('l \<Rightarrow> 'k) \<Rightarrow> ('r \<Rightarrow> 'k) \<Rightarrow> ('l \<Rightarrow> 'r option \<Rightarrow> 'o) \<Rightarrow> 'l list \<Rightarrow> 'r list \<Rightarrow> 'o list" where
  "merge_left lkey rkey join left right =
     concat (map (\<lambda>l. case filter (\<lambda>r. rkey r = lkey l) right of
                          [] \<Rightarrow> [join l None]
                        | ms \<Rightarrow> map (\<lambda>m. join l (Some m)) ms) left)"

text \<open>The truth value Python gives an optional argument in \<open>if by_year:\<close> and \<open>if country:\<close>.\<close>

definition truthy :: "int option \<Rightarrow> bool" where
  "truthy v = (case v of None \<Rightarrow> False | Some y \<Rightarrow> y \<noteq> 0)"

definition truthy_str :: "string option \<Rightarrow> bool" where
  "truthy_str v = (case v of None \<Rightarrow> False | Some s \<Rightarrow> s \<noteq> [])"

section \<open>The other methods of CO2DataProcessor\<close>

text \<open>
  Each method works on a copy of \<open>self.processed_data\<close>, the frame \<open>clean_data\<close> left
  there; the model takes that frame as an argument.
\<close>

subsection \<open>add\_derived\_metrics\<close>

text \<open>
  The population and GDP tables have the columns country, year and the amount
  (\<open>population\<close> or \<open>gdp\<close>). A row of the result carries the observation and the columns
  the method adds; a column that was not added is \<open>None\<close>.
\<close>

record side_row =
  s_country :: "string option"
  s_year :: "int option"
  s_amount :: fl

record drow = "fl obs" +
  total_emissions :: fl
  population :: "fl option"
  emissions_per_capita :: "fl option"
  gdp :: "fl option"
  emission_intensity :: "fl option"

definition with_total :: "fl obs \<Rightarrow> fl \<Rightarrow> drow" where
  "with_total r t = obs.extend r (drow.fields t None None None None)"

definition add_derived_metrics ::
  "side_row list option \<Rightarrow> side_row list option \<Rightarrow> fl obs list \<Rightarrow> drow list" where
  "add_derived_metrics population_data gdp_data processed_data =
     (let df = processed_data;
          yearly_totals = groupby_sum country_year val df;
          df = merge_left (\<lambda>r. (country r, year r)) (\<lambda>((c, y), t). (Some c, Some y))
                 (\<lambda>r m. with_total r (case m of None \<Rightarrow> NaN | Some (k, t) \<Rightarrow> t))
                 df yearly_totals;
          df = (case population_data of
                  None \<Rightarrow> df
                | Some pop \<Rightarrow>
                    map (\<lambda>r. r\<lparr>emissions_per_capita :=
                          Some (fdiv (total_emissions r)
                                  (case population r of None \<Rightarrow> NaN | Some p \<Rightarrow> p))\<rparr>)
                      (merge_left (\<lambda>r. (country r, year r)) (\<lambda>p. (s_country p, s_year p))
                         (\<lambda>r m. r\<lparr>population :=
                             Some (case m of None \<Rightarrow> NaN | Some p \<Rightarrow> s_amount p)\<rparr>)
                         df pop));
          df = (case gdp_data of
                  None \<Rightarrow> df
                | Some g \<Rightarrow>
                    map (\<lambda>r. r\<lparr>emission_intensity :=
                          Some (fdiv (total_emissions r)
                                  (case gdp r of None \<Rightarrow> NaN | Some p \<Rightarrow> p))\<rparr>)
                      (merge_left (\<lambda>r. (country r, year r)) (\<lambda>p. (s_country p, s_year p))
                         (\<lambda>r m. r\<lparr>gdp :=
                             Some (case m of None \<Rightarrow> NaN | Some p \<Rightarrow> s_amount p)\<rparr>)
                         df g))
      in df)"

subsection \<open>calculate\_growth\_rates\<close>

record yearly_row =
  y_country :: string
  y_year :: int
  y_value :: fl
  prev_year_emissions :: fl
  growth_rate :: fl

text \<open>Lines 117 and 118: \<open>(value - prev) / prev * 100\<close>.\<close>

definition pct_change :: "fl \<Rightarrow> fl \<Rightarrow> fl" where
  "pct_change v p = fmul (fdiv (fsub v p) p) (Fin 100)"

definition calculate_growth_rates :: "fl obs list \<Rightarrow> yearly_row list" where
  "calculate_growth_rates processed_data =
     (let df = processed_data;
          yearly = groupby_sum country_year val df;
          yearly = sort_key fst yearly;
          prev = group_shift (\<lambda>r. fst (fst r)) snd [] yearly
      in map (\<lambda>(((c, y), v), p).
            \<lparr>y_country = c, y_year = y, y_value = v, prev_year_emissions = p,
             growth_rate = pct_change v p\<rparr>) (zip yearly prev))"

subsection \<open>get\_top\_emitters and get\_sectoral\_breakdown\<close>

text \<open>
  Lines 122 to 157. The frames they return have the columns (country,
  total\_emissions) and (sector, total\_emissions); \<open>dt\<close> is the type of the value
  column of \<open>processed_data\<close>.
\<close>

definition get_top_emitters ::
  "'v numeric \<Rightarrow> int \<Rightarrow> int option \<Rightarrow> 'v obs list \<Rightarrow> (string \<times> 'v) list" where
  "get_top_emitters dt n by_year processed_data =
     (let df = processed_data;
          df = (if truthy by_year then filter (\<lambda>r. year r = by_year) df else df)
      in head n (sort_values_desc (\<lambda>r. number dt (snd r))
                   (groupby_agg (col_sum dt) country val df)))"

definition get_sectoral_breakdown ::
  "'v numeric \<Rightarrow> string option \<Rightarrow> 'v obs list \<Rightarrow> (string \<times> 'v) list" where
  "get_sectoral_breakdown dt country_arg processed_data =
     (let df = processed_data;
          df = (if truthy_str country_arg then filter (\<lambda>r. country r = country_arg) df else df)
      in sort_values_desc (\<lambda>r. number dt (snd r)) (groupby_agg (col_sum dt) sector val df))"

section \<open>Frames for worked examples\<close>

definition mk :: "string \<Rightarrow> string option \<Rightarrow> int \<Rightarrow> 'v \<Rightarrow> 'v obs" where
  "mk c s y v = \<lparr>country = Some c, sector = s,
       date = Some \<lparr>ts_day = 1, ts_month = 1, ts_year = y\<rparr>,
       year = Some y, month = Some 1, val = v\<rparr>"

text \<open>
  A frame in which one row of a country has no sector, and a frame in which a country's
  name is the empty text (a name of blanks only, stripped).
\<close>

definition ex_gap :: "fl obs list" where
  "ex_gap = [mk ''A'' (Some ''Energy'') 2020 (Fin 100), mk ''A'' None 2021 (Fin 200)]"

definition ex_blank :: "fl obs list" where
  "ex_blank = [mk '''' (Some ''Energy'') 2020 (Fin 1), mk ''B'' (Some ''Energy'') 2020 (Fin 2)]"

text \<open>
  An int64 frame in which the values of a country add up to \<open>2^63\<close>, and the same small
  frame with an int64 and with a float64 value column.
\<close>

definition ex_wrap :: "64 word obs list" where
  "ex_wrap = [mk ''A'' (Some ''Energy'') 2020 4611686018427387904,
              mk ''A'' (Some ''Transport'') 2021 4611686018427387904,
              mk ''B'' (Some ''Energy'') 2020 1]"

definition ex_whole :: "64 word obs list" where
  "ex_whole = [mk ''A'' (Some ''Energy'') 2020 100, mk ''B'' (Some ''Energy'') 2020 50,
               mk ''A'' (Some ''Transport'') 2021 200, mk ''A'' (Some ''Energy'') 2021 25]"

definition ex_sectors :: "fl obs list" where
  "ex_sectors = [mk ''A'' (Some ''Energy'') 2020 (Fin 100), mk ''B'' (Some ''Energy'') 2020 (Fin 50),
                 mk ''A'' (Some ''Transport'') 2021 (Fin 200), mk ''A'' (Some ''Energy'') 2021 (Fin 25)]"

text \<open>
  What the shift leaves beside row \<open>i\<close> of a frame sorted by (country, year): the total
  of the row above when that row is of the same country, NaN otherwise.
\<close>

definition prev_total :: "((string \<times> int) \<times> fl) list \<Rightarrow> nat \<Rightarrow> fl" where
  "prev_total xs i =
     (if i = 0 then NaN
      else if fst (fst (xs ! (i - 1))) = fst (fst (xs ! i)) then snd (xs ! (i - 1)) else NaN)"

text \<open>A country whose total is zero in 2020 and 12 in 2021.\<close>

definition ex_zero_base :: "fl obs list" where
  "ex_zero_base = [mk ''B'' (Some ''Energy'') 2021 (Fin 12), mk ''B'' (Some ''Energy'') 2020 (Fin 0)]"

section \<open>CO2Visualizer\<close>

subsection \<open>Frames as objects\<close>

text \<open>
  The visualizer holds a reference to the frame it was given (\<open>self.data\<close>), and its
  methods build further frames, some of which they then change in place (\<open>.columns = ...\<close>,
  \<open>yearly['growth_rate'] = ...\<close>). Whether such a change can reach \<open>self.data\<close> depends
  on which object it is applied to, so frames live in a heap here: a frame is its column
  labels and its rows, an address is a position in the heap, a pandas call that returns a
  new frame (\<open>copy\<close>, indexing with a mask, \<open>groupby(...).sum().reset_index()\<close>,
  \<open>sort_values\<close>, \<open>head\<close>, \<open>pivot\<close>) allocates, and an assignment to a frame's
  column or labels overwrites the frame at its address.
\<close>

datatype payload =
    PObs "fl obs list"
  | PNamed "(string \<times> fl) list"
  | PYear "(int \<times> fl) list"
  | PYearNamed "((int \<times> string) \<times> fl) list"
  | PNamedYear "((string \<times> int) \<times> fl) list"
  | PShifted "(((string \<times> int) \<times> fl) \<times> fl) list"
  | PGrowth "yearly_row list"
  | PMatrix "string list" "int list" "fl list list"

record frame =
  columns :: "string list"
  payload :: payload

type_synonym addr = nat
type_synonym heap = "frame list"

definition alloc :: "frame \<Rightarrow> heap \<Rightarrow> addr \<times> heap" where
  "alloc f h = (length h, h @ [f])"

definition put :: "addr \<Rightarrow> frame \<Rightarrow> heap \<Rightarrow> heap" where
  "put a f h = h[a := f]"

definition set_columns :: "addr \<Rightarrow> string list \<Rightarrow> heap \<Rightarrow> heap" where
  "set_columns a cs h = put a ((h ! a)\<lparr>columns := cs\<rparr>) h"

definition obs_at :: "heap \<Rightarrow> addr \<Rightarrow> (string list \<times> fl obs list) option" where
  "obs_at h a =
     (if a < length h then
        (case payload (h ! a) of PObs df \<Rightarrow> Some (columns (h ! a), df) | _ \<Rightarrow> None)
      else None)"

text \<open>
  A figure is what the plotting library is handed: the kind of chart, the frame, and the
  column labels bound to its axes and colours (a label the frame does not have is the
  library's \<open>ValueError\<close>). Titles, sizes and colour scales are left out.
\<close>

datatype chart_kind = Bar | Line | Area | Choropleth | Pie | Heatmap

record figure =
  kind :: chart_kind
  source :: frame
  bindings :: "string list"

definition px :: "chart_kind \<Rightarrow> frame \<Rightarrow> string list \<Rightarrow> error + figure" where
  "px k f bs =
     (if set bs \<subseteq> set (columns f) then Inr \<lparr>kind = k, source = f, bindings = bs\<rparr>
      else Inl ValueError)"

record visualizer =
  data :: addr
  color_scale :: string

subsection \<open>The pandas operations of the chart methods\<close>

definition isin :: "string list \<Rightarrow> fl obs \<Rightarrow> bool" where
  "isin countries r = (case country r of None \<Rightarrow> False | Some c \<Rightarrow> c \<in> set countries)"

definition groupby_mean ::
  "('r \<Rightarrow> 'k::linorder option) \<Rightarrow> ('r \<Rightarrow> fl) \<Rightarrow> 'r list \<Rightarrow> ('k \<times> fl) list" where
  "groupby_mean key v df =
     map (\<lambda>k. (k, pd_mean (map v (filter (\<lambda>r. key r = Some k) df)))) (group_keys key df)"

definition year_and :: "(fl obs \<Rightarrow> string option) \<Rightarrow> fl obs \<Rightarrow> (int \<times> string) option" where
  "year_and name r =
     (case (year r, name r) of (Some y, Some c) \<Rightarrow> Some (y, c) | _ \<Rightarrow> None)"

text \<open>\<open>Series.max()\<close> of a column of years: missing when there is no year.\<close>

definition col_max :: "int list \<Rightarrow> int option" where
  "col_max ys = (case ys of [] \<Rightarrow> None | y # ys' \<Rightarrow> Some (fold max ys' y))"

text \<open>
  \<open>pivot(index='country', columns='year', values='value')\<close>: one row per country and
  one column per year that occur, both ascending, and NaN in a cell no row fills.
\<close>

definition pivot :: "((string \<times> int) \<times> fl) list \<Rightarrow> payload" where
  "pivot rows =
     (let index = sort (remdups (map (\<lambda>r. fst (fst r)) rows));
          cols = sort (remdups (map (\<lambda>r. snd (fst r)) rows))
      in PMatrix index cols
           (map (\<lambda>c. map (\<lambda>y. case find (\<lambda>r. fst r = (c, y)) rows of
                                  None \<Rightarrow> NaN | Some r \<Rightarrow> snd r) cols) index))"

subsection \<open>The chart methods\<close>

text \<open>
  Each method takes the visualizer and the heap and returns the figure, or the exception
  it raises, and the heap it leaves. \<open>KeyError\<close> is what indexing raises when
  \<open>self.data\<close> is not a frame of observations.
\<close>

definition create_top_emitters_bar ::
  "int \<Rightarrow> int option \<Rightarrow> visualizer \<Rightarrow> heap \<Rightarrow> (error + figure) \<times> heap" where
  "create_top_emitters_bar n year_arg self h =
     (case obs_at h (data self) of
        None \<Rightarrow> (Inl KeyError, h)
      | Some (cols, rows) \<Rightarrow>
          (let (df, h) = alloc \<lparr>columns = cols, payload = PObs rows\<rparr> h;
               (df, rows, h) =
                 (if truthy year_arg
                  then (let rows' = filter (\<lambda>r. year r = year_arg) rows;
                            (df', h') = alloc \<lparr>columns = cols, payload = PObs rows'\<rparr> h
                        in (df', rows', h'))
                  else (df, rows, h));
               (top_emitters, h) =
                 alloc \<lparr>columns = [''country'', ''value''],
                        payload = PNamed (head n (sort_values_desc snd
                                     (groupby_sum country val rows)))\<rparr> h;
               h = set_columns top_emitters [''country'', ''emissions''] h
           in (px Bar (h ! top_emitters) [''emissions'', ''country'', ''emissions''], h)))"

definition create_global_trend :: "visualizer \<Rightarrow> heap \<Rightarrow> (error + figure) \<times> heap" where
  "create_global_trend self h =
     (case obs_at h (data self) of
        None \<Rightarrow> (Inl KeyError, h)
      | Some (cols, rows) \<Rightarrow>
          (let (trend, h) =
                 alloc \<lparr>columns = [''year'', ''value''],
                        payload = PYear (groupby_sum year val rows)\<rparr> h;
               h = set_columns trend [''year'', ''emissions''] h
           in (px Line (h ! trend) [''year'', ''emissions''], h)))"

definition create_country_trends ::
  "string list \<Rightarrow> visualizer \<Rightarrow> heap \<Rightarrow> (error + figure) \<times> heap" where
  "create_country_trends countries self h =
     (case obs_at h (data self) of
        None \<Rightarrow> (Inl KeyError, h)
      | Some (cols, rows) \<Rightarrow>
          (let rows = filter (isin countries) rows;
               (df_filtered, h) = alloc \<lparr>columns = cols, payload = PObs rows\<rparr> h;
               (trend, h) =
                 alloc \<lparr>columns = [''year'', ''country'', ''value''],
                        payload = PYearNamed (groupby_sum (year_and country) val rows)\<rparr> h
           in (px Line (h ! trend) [''year'', ''value'', ''country''], h)))"

definition create_sectoral_breakdown ::
  "string option \<Rightarrow> visualizer \<Rightarrow> heap \<Rightarrow> (error + figure) \<times> heap" where
  "create_sectoral_breakdown country_arg self h =
     (case obs_at h (data self) of
        None \<Rightarrow> (Inl KeyError, h)
      | Some (cols, rows) \<Rightarrow>
          (let (df, h) = alloc \<lparr>columns = cols, payload = PObs rows\<rparr> h;
               (df, rows, h) =
                 (if truthy_str country_arg
                  then (let rows' = filter (\<lambda>r. country r = country_arg) rows;
                            (df', h') = alloc \<lparr>columns = cols, payload = PObs rows'\<rparr> h
                        in (df', rows', h'))
                  else (df, rows, h));
               (sectoral, h) =
                 alloc \<lparr>columns = [''sector'', ''value''],
                        payload = PNamed (sort_values_desc snd (groupby_sum sector val rows))\<rparr> h;
               h = set_columns sectoral [''sector'', ''emissions''] h
           in (px Bar (h ! sectoral) [''sector'', ''emissions'', ''emissions''], h)))"

definition create_sectoral_trend :: "visualizer \<Rightarrow> heap \<Rightarrow> (error + figure) \<times> heap" where
  "create_sectoral_trend self h =
     (case obs_at h (data self) of
        None \<Rightarrow> (Inl KeyError, h)
      | Some (cols, rows) \<Rightarrow>
          (let (trend, h) =
                 alloc \<lparr>columns = [''year'', ''sector'', ''value''],
                        payload = PYearNamed (groupby_sum (year_and sector) val rows)\<rparr> h
           in (px Area (h ! trend) [''year'', ''value'', ''sector''], h)))"

definition create_animated_map :: "visualizer \<Rightarrow> heap \<Rightarrow> (error + figure) \<times> heap" where
  "create_animated_map self h =
     (case obs_at h (data self) of
        None \<Rightarrow> (Inl KeyError, h)
      | Some (cols, rows) \<Rightarrow>
          (let (yearly, h) =
                 alloc \<lparr>columns = [''country'', ''year'', ''value''],
                        payload = PNamedYear (groupby_sum country_year val rows)\<rparr> h;
               h = set_columns yearly [''country'', ''year'', ''emissions''] h
           in (px Choropleth (h ! yearly) [''country'', ''emissions'', ''country'', ''year''], h)))"

definition create_growth_rate_chart ::
  "int \<Rightarrow> visualizer \<Rightarrow> heap \<Rightarrow> (error + figure) \<times> heap" where
  "create_growth_rate_chart n self h =
     (case obs_at h (data self) of
        None \<Rightarrow> (Inl KeyError, h)
      | Some (cols, rows) \<Rightarrow>
          (let totals = groupby_sum country_year val rows;
               (yearly, h) =
                 alloc \<lparr>columns = [''country'', ''year'', ''value''], payload = PNamedYear totals\<rparr> h;
               totals = sort_key fst totals;
               (yearly, h) =
                 alloc \<lparr>columns = [''country'', ''year'', ''value''], payload = PNamedYear totals\<rparr> h;
               shifted = zip totals (group_shift (\<lambda>r. fst (fst r)) snd [] totals);
               h = put yearly \<lparr>columns = columns (h ! yearly) @ [''prev_emissions''],
                               payload = PShifted shifted\<rparr> h;
               growth = map (\<lambda>(((c, y), v), p).
                          \<lparr>y_country = c, y_year = y, y_value = v, prev_year_emissions = p,
                           growth_rate = pct_change v p\<rparr>) shifted;
               h = put yearly \<lparr>columns = columns (h ! yearly) @ [''growth_rate''],
                               payload = PGrowth growth\<rparr> h;
               recent_years = map_option (\<lambda>m. m - 5) (col_max (map y_year growth));
               recent_rows = (case recent_years of None \<Rightarrow> []
                              | Some m \<Rightarrow> filter (\<lambda>r. m \<le> y_year r) growth);
               (recent, h) =
                 alloc \<lparr>columns = columns (h ! yearly), payload = PGrowth recent_rows\<rparr> h;
               avg = groupby_mean (\<lambda>r. Some (y_country r)) growth_rate recent_rows;
               (avg_growth, h) =
                 alloc \<lparr>columns = [''country'', ''growth_rate''], payload = PNamed avg\<rparr> h;
               (avg_growth, h) =
                 alloc \<lparr>columns = [''country'', ''growth_rate''],
                        payload = PNamed (head n (sort_values_desc snd avg))\<rparr> h
           in (px Bar (h ! avg_growth) [''growth_rate'', ''country'', ''growth_rate''], h)))"

definition create_pie_chart ::
  "string list \<Rightarrow> int option \<Rightarrow> visualizer \<Rightarrow> heap \<Rightarrow> (error + figure) \<times> heap" where
  "create_pie_chart countries year_arg self h =
     (case obs_at h (data self) of
        None \<Rightarrow> (Inl KeyError, h)
      | Some (cols, rows) \<Rightarrow>
          (let (df, h) = alloc \<lparr>columns = cols, payload = PObs rows\<rparr> h;
               (df, rows, h) =
                 (if truthy year_arg
                  then (let rows' = filter (\<lambda>r. year r = year_arg) rows;
                            (df', h') = alloc \<lparr>columns = cols, payload = PObs rows'\<rparr> h
                        in (df', rows', h'))
                  else (df, rows, h));
               rows = filter (isin countries) rows;
               (df_filtered, h) = alloc \<lparr>columns = cols, payload = PObs rows\<rparr> h;
               (emissions, h) =
                 alloc \<lparr>columns = [''country'', ''value''],
                        payload = PNamed (groupby_sum country val rows)\<rparr> h
           in (px Pie (h ! emissions) [''value'', ''country''], h)))"

definition create_comparison_chart ::
  "string list \<Rightarrow> string \<Rightarrow> visualizer \<Rightarrow> heap \<Rightarrow> (error + figure) \<times> heap" where
  "create_comparison_chart countries metric self h =
     (case obs_at h (data self) of
        None \<Rightarrow> (Inl KeyError, h)
      | Some (cols, rows) \<Rightarrow>
          (let rows = filter (isin countries) rows;
               (df, h) = alloc \<lparr>columns = cols, payload = PObs rows\<rparr> h;
               (data_var, h) =
                 (if metric = ''total''
                  then (let (a, h') = alloc \<lparr>columns = [''country'', ''value''],
                                 payload = PNamed (groupby_sum country val rows)\<rparr> h
                        in (Some a, h'))
                  else if metric = ''average''
                  then (let (a, h') = alloc \<lparr>columns = [''country'', ''value''],
                                 payload = PNamed (groupby_mean country val rows)\<rparr> h
                        in (Some a, h'))
                  else (None, h))
           in (case data_var of
                 None \<Rightarrow> (Inl UnboundLocalError, h)
               | Some a \<Rightarrow> (px Bar (h ! a) [''country'', ''value'', ''value''], h))))"

definition create_heatmap ::
  "string list \<Rightarrow> int \<Rightarrow> visualizer \<Rightarrow> heap \<Rightarrow> (error + figure) \<times> heap" where
  "create_heatmap countries n_years self h =
     (case obs_at h (data self) of
        None \<Rightarrow> (Inl KeyError, h)
      | Some (cols, rows) \<Rightarrow>
          (let rows = filter (isin countries) rows;
               (df, h) = alloc \<lparr>columns = cols, payload = PObs rows\<rparr> h;
               max_year = col_max (List.map_filter year rows);
               min_year = map_option (\<lambda>m. m - n_years + 1) max_year;
               rows = (case min_year of None \<Rightarrow> []
                       | Some m \<Rightarrow> filter (\<lambda>r. case year r of None \<Rightarrow> False | Some y \<Rightarrow> m \<le> y) rows);
               (df, h) = alloc \<lparr>columns = cols, payload = PObs rows\<rparr> h;
               cells = groupby_sum country_year val rows;
               (heatmap_data, h) =
                 alloc \<lparr>columns = [''country'', ''year'', ''value''], payload = PNamedYear cells\<rparr> h;
               (heatmap_pivot, h) =
                 alloc \<lparr>columns = [], payload = pivot cells\<rparr> h
           in (Inr \<lparr>kind = Heatmap, source = h ! heatmap_pivot, bindings = []\<rparr>, h)))"

subsection \<open>Calls in sequence\<close>

datatype call =
    TopEmittersBar int "int option"
  | GlobalTrend
  | CountryTrends "string list"
  | SectoralBreakdown "string option"
  | SectoralTrend
  | AnimatedMap
  | GrowthRateChart int
  | PieChart "string list" "int option"
  | ComparisonChart "string list" string
  | HeatmapChart "string list" int

fun run :: "call \<Rightarrow> visualizer \<Rightarrow> heap \<Rightarrow> (error + figure) \<times> heap" where
  "run (TopEmittersBar n y) self h = create_top_emitters_bar n y self h"
| "run GlobalTrend self h = create_global_trend self h"
| "run (CountryTrends cs) self h = create_country_trends cs self h"
| "run (SectoralBreakdown c) self h = create_sectoral_breakdown c self h"
| "run SectoralTrend self h = create_sectoral_trend self h"
| "run AnimatedMap self h = create_animated_map self h"
| "run (GrowthRateChart n) self h = create_growth_rate_chart n self h"
| "run (PieChart cs y) self h = create_pie_chart cs y self h"
| "run (ComparisonChart cs m) self h = create_comparison_chart cs m self h"
| "run (HeatmapChart cs n) self h = create_heatmap cs n self h"

text \<open>A list of calls, one after the other on the heap the one before left.\<close>

fun run_all :: "call list \<Rightarrow> visualizer \<Rightarrow> heap \<Rightarrow> (error + figure) list \<times> heap" where
  "run_all [] self h = ([], h)"
| "run_all (c # cs) self h =
     (let (r, h1) = run c self h; (rs, h2) = run_all cs self h1 in (r # rs, h2))"

text \<open>Every frame of \<open>h\<close> is in \<open>h'\<close>, at its address and as it was.\<close>

definition unchanged :: "heap \<Rightarrow> heap \<Rightarrow> bool" where
  "unchanged h h' = (take (length h) h' = h)"

text \<open>
  The words of the claims about the two windows. A row of the yearly table is in the
  growth chart's window when no year of the table is more than five years after its own;
  a row of the frame is in the heat map's window when it is of a selected country, has a
  year, and no year of a selected country's row is \<open>n\<close> or more years after its own.
\<close>

definition in_recent_window :: "yearly_row list \<Rightarrow> yearly_row \<Rightarrow> bool" where
  "in_recent_window table r = (\<forall>q \<in> set table. y_year q - 5 \<le> y_year r)"


text \<open>A heap that holds one frame of four observations, and a visualizer on it.\<close>

definition ex_two :: "fl obs list" where
  "ex_two = [mk ''A'' (Some ''Energy'') 2020 (Fin 100), mk ''A'' (Some ''Energy'') 2021 (Fin 200),
             mk ''B'' (Some ''Energy'') 2021 (Fin 50), mk ''C'' (Some ''Energy'') 2021 (Fin 9)]"

definition obs_columns :: "string list" where
  "obs_columns = [''country'', ''sector'', ''date'', ''year'', ''month'', ''value'']"

definition h0 :: heap where
  "h0 = [\<lparr>columns = obs_columns, payload = PObs ex_two\<rparr>]"

definition viz :: visualizer where
  "viz = \<lparr>data = 0, color_scale = ''Reds''\<rparr>"

text \<open>
  Three countries for the growth chart: one with three years to 2022, one with a single
  year, and one whose years lie more than five years before the latest.
\<close>

definition ex_growth :: "fl obs list" where
  "ex_growth = [mk ''A'' (Some ''Energy'') 2020 (Fin 100), mk ''A'' (Some ''Energy'') 2021 (Fin 150),
                mk ''A'' (Some ''Energy'') 2022 (Fin 120), mk ''B'' (Some ''Energy'') 2022 (Fin 7),
                mk ''C'' (Some ''Energy'') 2010 (Fin 1), mk ''C'' (Some ''Energy'') 2011 (Fin 3)]"

definition heap_growth :: heap where
  "heap_growth = [\<lparr>columns = obs_columns, payload = PObs ex_growth\<rparr>]"




section \<open>Properties of clean\_data\<close>

lemma strip_idem: "strip (strip s) = strip s"
proof -
  define ys where "ys = dropWhile is_space s"
  define zs where "zs = rev (dropWhile is_space (rev ys))"
  have pre: "ys = zs @ rev (takeWhile is_space (rev ys))"
  proof -
    have "zs @ rev (takeWhile is_space (rev ys))
        = rev (takeWhile is_space (rev ys) @ dropWhile is_space (rev ys))"
      unfolding zs_def rev_append ..
    also have "\<dots> = ys"
      by simp
    finally show ?thesis by simp
  qed
  have front: "dropWhile is_space zs = zs"
  proof (cases zs)
    case Nil
    then show ?thesis by simp
  next
    case (Cons z zs')
    then have "hd ys = z" using pre by (metis hd_append2 list.sel(1) list.distinct(1))
    moreover have "ys \<noteq> []" using pre Cons by auto
    then have "\<not> is_space (hd ys)" unfolding ys_def by (rule hd_dropWhile)
    ultimately show ?thesis using Cons by simp
  qed
  have rear: "dropWhile is_space (rev zs) = rev zs"
    by (simp add: zs_def)
  show ?thesis
    unfolding strip_def using front rear by (simp add: ys_def [symmetric] zs_def [symmetric])
qed

lemma derived_ok_coerce [simp]: "derived_ok (coerce strp pnum x)"
  by (simp add: derived_ok_def coerce_def Let_def)

lemma length_filter_split:
  "length (filter P xs) + length (filter (\<lambda>x. \<not> P x) xs) = length xs"
  by (induction xs) auto

lemma critical_ok_str_strip_names [simp]: "critical_ok (str_strip_names sc r) = critical_ok r"
  by (simp add: critical_ok_def str_strip_names_def)

lemma derived_ok_str_strip_names [simp]: "derived_ok (str_strip_names sc r) = derived_ok r"
  by (simp add: derived_ok_def str_strip_names_def)

lemma str_strip_names_idem [simp]:
  "str_strip_names (Some d) (str_strip_names sc r) = str_strip_names sc r"
  by (cases sc) (simp_all add: str_strip_names_def strip_idem option.map_comp comp_def)

lemma fst_clean_data:
  "fst (clean_data strp pnum raw)
     = length (filter (\<lambda>x. \<not> critical_ok (coerce strp pnum x)) (raw_rows raw))"
proof -
  have "length (filter (\<lambda>x. critical_ok (coerce strp pnum x)) (raw_rows raw))
      + length (filter (\<lambda>x. \<not> critical_ok (coerce strp pnum x)) (raw_rows raw))
      = length (raw_rows raw)"
    by (rule length_filter_split)
  then show ?thesis
    by (simp add: clean_data_def dropna_def Let_def filter_map comp_def)
qed

lemma snd_clean_data:
  "snd (clean_data strp pnum raw)
     = (if text_columns raw
        then Inr \<lparr>obs_rows = map (str_strip_names (sector_dtype raw))
                               (filter critical_ok (map (coerce strp pnum) (raw_rows raw))),
                  year_dtype = dt_year_dtype (map (coerce strp pnum) (raw_rows raw))\<rparr>
        else Inl AttributeError)"
  by (auto simp: clean_data_def dropna_def Let_def text_columns_def)

lemma cleaned_clean_data:
  "snd (clean_data strp pnum raw) = Inr p \<Longrightarrow> cleaned (obs_rows p)"
  by (auto simp: snd_clean_data cleaned_def split: if_splits)

lemma coerce_as_raw_row: "derived_ok r \<Longrightarrow> coerce strp pnum (as_raw_row r) = r"
  by (cases "date r")
     (simp_all add: coerce_def as_raw_row_def to_datetime_def to_numeric_def derived_ok_def Let_def)

lemma dt_year_dtype_Int32:
  "dt_year_dtype df = Int32 \<longleftrightarrow> (\<forall>r \<in> set df. date r \<noteq> None)"
  by (simp add: dt_year_dtype_def)

text \<open>
  Claim C3. \<open>clean_data\<close> prints the number of input rows that lack a country, a date
  or a numeric value after coercion, on every raw frame. It raises \<open>AttributeError\<close>
  exactly when the country column, or a sector column that is there, is not of dtype
  object. On every other frame it returns a frame in which every row has a country, a
  date and a value that is a number, each row being the coerced and stripped image of a
  valid input row: as many rows come out as input rows are valid, and the rows returned
  and the rows counted make up the input.
\<close>

theorem clean_data_no_nulls:
  "fst (clean_data strp pnum raw)
     = length (filter (\<lambda>x. \<not> critical_ok (coerce strp pnum x)) (raw_rows raw))
   \<and> (snd (clean_data strp pnum raw) = Inl AttributeError \<longleftrightarrow> \<not> text_columns raw)
   \<and> (text_columns raw \<longrightarrow>
        (\<exists>p. snd (clean_data strp pnum raw) = Inr p
          \<and> (\<forall>r \<in> set (obs_rows p).
                country r \<noteq> None \<and> date r \<noteq> None \<and> \<not> isna (val r)
                \<and> (\<exists>x \<in> set (raw_rows raw). critical_ok (coerce strp pnum x)
                      \<and> r = str_strip_names (sector_dtype raw) (coerce strp pnum x)))
          \<and> length (obs_rows p)
              = length (filter (\<lambda>x. critical_ok (coerce strp pnum x)) (raw_rows raw))
          \<and> length (obs_rows p) + fst (clean_data strp pnum raw) = length (raw_rows raw)))"
proof -
  define p where "p = \<lparr>obs_rows = map (str_strip_names (sector_dtype raw))
                               (filter critical_ok (map (coerce strp pnum) (raw_rows raw))),
                  year_dtype = dt_year_dtype (map (coerce strp pnum) (raw_rows raw))\<rparr>"
  have count: "fst (clean_data strp pnum raw)
     = length (filter (\<lambda>x. \<not> critical_ok (coerce strp pnum x)) (raw_rows raw))"
    by (rule fst_clean_data)
  have fails: "snd (clean_data strp pnum raw) = Inl AttributeError \<longleftrightarrow> \<not> text_columns raw"
    by (simp add: snd_clean_data)
  have rows: "\<forall>r \<in> set (obs_rows p).
                country r \<noteq> None \<and> date r \<noteq> None \<and> \<not> isna (val r)
                \<and> (\<exists>x \<in> set (raw_rows raw). critical_ok (coerce strp pnum x)
                      \<and> r = str_strip_names (sector_dtype raw) (coerce strp pnum x))"
  proof
    fix r assume "r \<in> set (obs_rows p)"
    then obtain x where x: "x \<in> set (raw_rows raw)" "critical_ok (coerce strp pnum x)"
        "r = str_strip_names (sector_dtype raw) (coerce strp pnum x)"
      by (auto simp: p_def)
    then have "critical_ok r" by simp
    then show "country r \<noteq> None \<and> date r \<noteq> None \<and> \<not> isna (val r)
                \<and> (\<exists>x \<in> set (raw_rows raw). critical_ok (coerce strp pnum x)
                      \<and> r = str_strip_names (sector_dtype raw) (coerce strp pnum x))"
      using x by (auto simp: critical_ok_def)
  qed
  have kept: "length (obs_rows p)
              = length (filter (\<lambda>x. critical_ok (coerce strp pnum x)) (raw_rows raw))"
    by (simp add: p_def filter_map comp_def)
  have split: "length (filter (\<lambda>x. critical_ok (coerce strp pnum x)) (raw_rows raw))
      + length (filter (\<lambda>x. \<not> critical_ok (coerce strp pnum x)) (raw_rows raw))
      = length (raw_rows raw)"
    by (rule length_filter_split)
  have "text_columns raw \<longrightarrow> snd (clean_data strp pnum raw) = Inr p"
    by (simp add: snd_clean_data p_def)
  then show ?thesis
    using count fails rows kept split by auto
qed

text \<open>
  The claim as stated fails on a raw frame whose sector column is empty throughout, and
  on one whose country column is: the count is printed (0 and 2) and the call raises.
\<close>

theorem clean_data_raises_counterexample:
  "clean_data strptime_dmY parse_number raw_no_sector = (0, Inl AttributeError)
   \<and> clean_data strptime_dmY parse_number raw_no_country = (2, Inl AttributeError)"
  by (simp add: clean_data_def raw_no_sector_def raw_no_country_def coerce_def to_datetime_def
      to_numeric_def strptime_dmY_def digit_val_def days_in_month_def leap_year_def dropna_def
      critical_ok_def isna_def dt_year_dtype_def Let_def)

theorem clean_data_no_nulls_witness:
  "text_columns raw_example
   \<and> clean_data strptime_dmY parse_number raw_example =
       (3, Inr \<lparr>obs_rows =
            [\<lparr>country = Some ''A'', sector = Some ''Energy'',
               date = Some \<lparr>ts_day = 1, ts_month = 1, ts_year = 2020\<rparr>,
               year = Some 2020, month = Some 1, val = Fin 100\<rparr>,
             \<lparr>country = Some ''B'', sector = Some ''Energy'',
               date = Some \<lparr>ts_day = 1, ts_month = 1, ts_year = 2020\<rparr>,
               year = Some 2020, month = Some 1, val = Fin 50\<rparr>],
            year_dtype = Float64\<rparr>)
   \<and> length (filter (\<lambda>x. \<not> critical_ok (coerce strptime_dmY parse_number x))
         (raw_rows raw_example)) = 3"
proof -
  have run: "clean_data strptime_dmY parse_number raw_example =
       (3, Inr \<lparr>obs_rows =
            [\<lparr>country = Some ''A'', sector = Some ''Energy'',
               date = Some \<lparr>ts_day = 1, ts_month = 1, ts_year = 2020\<rparr>,
               year = Some 2020, month = Some 1, val = Fin 100\<rparr>,
             \<lparr>country = Some ''B'', sector = Some ''Energy'',
               date = Some \<lparr>ts_day = 1, ts_month = 1, ts_year = 2020\<rparr>,
               year = Some 2020, month = Some 1, val = Fin 50\<rparr>],
            year_dtype = Float64\<rparr>)"
    by (simp add: clean_data_def raw_example_def coerce_def to_datetime_def to_numeric_def
        strptime_dmY_def parse_number_def digit_val_def days_in_month_def leap_year_def dropna_def
        critical_ok_def isna_def str_strip_names_def strip_def is_space_def dt_year_dtype_def Let_def)
  have txt_cols: "text_columns raw_example"
    by (simp add: text_columns_def raw_example_def)
  from clean_data_no_nulls [of strptime_dmY parse_number raw_example]
  have "fst (clean_data strptime_dmY parse_number raw_example)
     = length (filter (\<lambda>x. \<not> critical_ok (coerce strptime_dmY parse_number x))
         (raw_rows raw_example))"
    by (elim conjE)
  then show ?thesis using run txt_cols by simp
qed

text \<open>
  Claim C5. When \<open>clean_data\<close> has returned a frame, \<open>clean_data\<close> run on that frame
  removes no row and returns the same rows with year and month of dtype int32, whatever
  the two parsers do. The frame returned first has them of dtype int32 exactly when
  every date of the raw frame was read as a timestamp; then the second frame is
  identical to the first.
\<close>

theorem clean_data_twice:
  assumes "snd (clean_data strp pnum raw) = Inr p"
  shows "clean_data strp' pnum' (as_raw p) = (0, Inr (p\<lparr>year_dtype := Int32\<rparr>))
         \<and> (year_dtype p = Int32
              \<longleftrightarrow> (\<forall>x \<in> set (raw_rows raw). to_datetime strp (r_date x) \<noteq> None))
         \<and> ((\<forall>x \<in> set (raw_rows raw). to_datetime strp (r_date x) \<noteq> None)
              \<longrightarrow> clean_data strp' pnum' (as_raw p) = (0, Inr p))"
proof -
  from assms have cols: "text_columns raw"
    and p: "p = \<lparr>obs_rows = map (str_strip_names (sector_dtype raw))
                               (filter critical_ok (map (coerce strp pnum) (raw_rows raw))),
                  year_dtype = dt_year_dtype (map (coerce strp pnum) (raw_rows raw))\<rparr>"
    by (auto simp: snd_clean_data split: if_splits)
  have inv: "\<forall>r \<in> set (obs_rows p).
               critical_ok r \<and> derived_ok r \<and> str_strip_names (Some Object) r = r"
    by (auto simp: p derived_ok_coerce)
  then have again: "map (coerce strp' pnum') (map as_raw_row (obs_rows p)) = obs_rows p"
    by (simp add: coerce_as_raw_row map_idI)
  have keep: "filter critical_ok (obs_rows p) = obs_rows p"
    using inv by (simp add: filter_id_conv)
  have names: "map (str_strip_names (Some Object)) (obs_rows p) = obs_rows p"
    using inv by (simp add: map_idI)
  have dates: "dt_year_dtype (obs_rows p) = Int32"
    using inv by (simp add: dt_year_dtype_def critical_ok_def)
  have rows: "raw_rows (as_raw p) = map as_raw_row (obs_rows p)"
    and cols': "country_dtype (as_raw p) = Object" "sector_dtype (as_raw p) = Some Object"
    by (simp_all add: as_raw_def)
  have "clean_data strp' pnum' (as_raw p)
          = (0, Inr \<lparr>obs_rows = obs_rows p, year_dtype = Int32\<rparr>)"
    unfolding clean_data_def Let_def dropna_def rows cols' again keep names dates by simp
  moreover have "\<lparr>obs_rows = obs_rows p, year_dtype = Int32\<rparr> = p\<lparr>year_dtype := Int32\<rparr>"
    by (cases p) simp
  ultimately have second:
    "clean_data strp' pnum' (as_raw p) = (0, Inr (p\<lparr>year_dtype := Int32\<rparr>))"
    by simp
  have dtype: "year_dtype p = Int32
      \<longleftrightarrow> (\<forall>x \<in> set (raw_rows raw). to_datetime strp (r_date x) \<noteq> None)"
    by (simp add: p dt_year_dtype_def coerce_def Let_def)
  have "year_dtype p = Int32 \<Longrightarrow> p\<lparr>year_dtype := Int32\<rparr> = p"
    by (cases p) simp
  then show ?thesis using second dtype by simp
qed

text \<open>
  On \<open>raw_example\<close>, where a date is not read, year and month are float64 after the
  first call and int32 after the second: the two frames differ.
\<close>

theorem clean_data_twice_counterexample:
  "\<exists>p. snd (clean_data strptime_dmY parse_number raw_example) = Inr p
      \<and> year_dtype p = Float64
      \<and> snd (clean_data strptime_dmY parse_number (as_raw p)) = Inr (p\<lparr>year_dtype := Int32\<rparr>)
      \<and> snd (clean_data strptime_dmY parse_number (as_raw p)) \<noteq> Inr p"
  by (simp add: clean_data_def raw_example_def as_raw_def as_raw_row_def coerce_def to_datetime_def
        to_numeric_def strptime_dmY_def parse_number_def digit_val_def days_in_month_def
        leap_year_def dropna_def critical_ok_def isna_def str_strip_names_def strip_def
        is_space_def dt_year_dtype_def Let_def)

theorem clean_data_twice_witness:
  "clean_data strptime_dmY parse_number raw_tidy =
     (0, Inr \<lparr>obs_rows =
            [\<lparr>country = Some ''A'', sector = Some ''Energy'',
               date = Some \<lparr>ts_day = 1, ts_month = 1, ts_year = 2020\<rparr>,
               year = Some 2020, month = Some 1, val = Fin 100\<rparr>,
             \<lparr>country = Some ''B'', sector = None,
               date = Some \<lparr>ts_day = 1, ts_month = 2, ts_year = 2020\<rparr>,
               year = Some 2020, month = Some 2, val = Fin 50\<rparr>],
            year_dtype = Int32\<rparr>)
   \<and> clean_data strptime_dmY parse_number
        (as_raw \<lparr>obs_rows =
            [\<lparr>country = Some ''A'', sector = Some ''Energy'',
               date = Some \<lparr>ts_day = 1, ts_month = 1, ts_year = 2020\<rparr>,
               year = Some 2020, month = Some 1, val = Fin 100\<rparr>,
             \<lparr>country = Some ''B'', sector = None,
               date = Some \<lparr>ts_day = 1, ts_month = 2, ts_year = 2020\<rparr>,
               year = Some 2020, month = Some 2, val = Fin 50\<rparr>],
            year_dtype = Int32\<rparr>) =
     (0, Inr \<lparr>obs_rows =
            [\<lparr>country = Some ''A'', sector = Some ''Energy'',
               date = Some \<lparr>ts_day = 1, ts_month = 1, ts_year = 2020\<rparr>,
               year = Some 2020, month = Some 1, val = Fin 100\<rparr>,
             \<lparr>country = Some ''B'', sector = None,
               date = Some \<lparr>ts_day = 1, ts_month = 2, ts_year = 2020\<rparr>,
               year = Some 2020, month = Some 2, val = Fin 50\<rparr>],
            year_dtype = Int32\<rparr>)"
proof -
  define p where "p = \<lparr>obs_rows =
            [\<lparr>country = Some ''A'', sector = Some ''Energy'',
               date = Some \<lparr>ts_day = 1, ts_month = 1, ts_year = 2020\<rparr>,
               year = Some 2020, month = Some 1, val = Fin 100\<rparr>,
             \<lparr>country = Some ''B'', sector = None,
               date = Some \<lparr>ts_day = 1, ts_month = 2, ts_year = 2020\<rparr>,
               year = Some 2020, month = Some 2, val = Fin 50\<rparr>],
            year_dtype = Int32\<rparr>"
  have first: "clean_data strptime_dmY parse_number raw_tidy = (0, Inr p)"
    by (simp add: p_def clean_data_def raw_tidy_def coerce_def to_datetime_def to_numeric_def
        strptime_dmY_def parse_number_def digit_val_def days_in_month_def leap_year_def dropna_def
        critical_ok_def isna_def str_strip_names_def strip_def is_space_def dt_year_dtype_def
        Let_def)
  then have "snd (clean_data strptime_dmY parse_number raw_tidy) = Inr p"
    by simp
  from clean_data_twice [OF this, of strptime_dmY parse_number]
  have "clean_data strptime_dmY parse_number (as_raw p) = (0, Inr (p\<lparr>year_dtype := Int32\<rparr>))"
    by (elim conjE)
  then have "clean_data strptime_dmY parse_number (as_raw p) = (0, Inr p)"
    by (simp add: p_def)
  then show ?thesis using first unfolding p_def by simp
qed

section \<open>Properties of the pandas operations\<close>

lemma foldl_fadd_sum_list: "foldl fadd a xs = a + sum_list xs"
  by (induction xs arbitrary: a) (simp_all add: plus_fl_def [symmetric] add.assoc)

lemma pd_sum_sum_list: "pd_sum xs = sum_list (filter (\<lambda>x. \<not> isna x) xs)"
  by (simp add: pd_sum_def foldl_fadd_sum_list zero_fl_def [symmetric])

lemma set_group_keys: "set (group_keys key df) = {k. \<exists>r \<in> set df. key r = Some k}"
  by (force simp: group_keys_def List.map_filter_def image_iff)

lemma distinct_group_keys: "distinct (group_keys key df)"
  by (simp add: group_keys_def)

lemma sorted_group_keys: "sorted (group_keys key df)"
  by (simp add: group_keys_def)

lemma map_fst_groupby_sum: "map fst (groupby_sum key v df) = group_keys key df"
  by (simp add: groupby_sum_def comp_def)

lemma groupby_sum_member:
  "(k, t) \<in> set (groupby_sum key v df) \<longleftrightarrow>
     (\<exists>r \<in> set df. key r = Some k) \<and> t = pd_sum (map v (filter (\<lambda>r. key r = Some k) df))"
  by (auto simp: groupby_sum_def set_group_keys)

lemma mset_insort_desc: "mset (insort_desc k x xs) = add_mset x (mset xs)"
  by (induction xs) simp_all

lemma mset_foldr_insort_desc: "mset (foldr (insort_desc k) xs []) = mset xs"
  by (induction xs) (simp_all add: mset_insort_desc)

lemma mset_sort_values_desc: "mset (sort_values_desc k xs) = mset xs"
  by (simp add: sort_values_desc_def mset_foldr_insort_desc)

lemma set_sort_values_desc: "set (sort_values_desc k xs) = set xs"
  by (metis mset_sort_values_desc set_mset_mset)

lemma length_sort_values_desc: "length (sort_values_desc k xs) = length xs"
  by (metis mset_sort_values_desc size_mset)

lemma fl_le_total: "\<not> isna a \<Longrightarrow> \<not> isna b \<Longrightarrow> fl_le a b \<or> fl_le b a"
  by (cases a; cases b) (auto simp: isna_def)

lemma fl_le_trans: "fl_le a b \<Longrightarrow> fl_le b c \<Longrightarrow> fl_le a c"
  by (cases a; cases b; cases c) auto

lemma set_insort_desc: "set (insort_desc k x xs) = insert x (set xs)"
  by (metis mset_insort_desc set_mset_add_mset_insert set_mset_mset)

lemma sorted_insort_desc:
  assumes "sorted_wrt (\<lambda>a b. fl_le (k b) (k a)) xs" "\<not> isna (k x)" "\<forall>y \<in> set xs. \<not> isna (k y)"
  shows "sorted_wrt (\<lambda>a b. fl_le (k b) (k a)) (insort_desc k x xs)"
  using assms
proof (induction xs)
  case Nil
  then show ?case by simp
next
  case (Cons y ys)
  show ?case
  proof (cases "fl_le (k y) (k x)")
    case True
    then have "\<forall>z \<in> set ys. fl_le (k z) (k x)"
      using Cons.prems(1) by (auto intro: fl_le_trans)
    then show ?thesis using True Cons.prems(1) by simp
  next
    case False
    then have "fl_le (k x) (k y)" using fl_le_total Cons.prems by fastforce
    then show ?thesis using False Cons by (auto simp: set_insort_desc)
  qed
qed

lemma sorted_foldr_insort_desc:
  "\<forall>y \<in> set xs. \<not> isna (k y) \<Longrightarrow> sorted_wrt (\<lambda>a b. fl_le (k b) (k a)) (foldr (insort_desc k) xs [])"
proof (induction xs)
  case Nil
  then show ?case by simp
next
  case (Cons x xs)
  have "set (foldr (insort_desc k) xs []) = set xs"
    by (metis mset_foldr_insort_desc set_mset_mset)
  then show ?case using Cons by (simp add: sorted_insort_desc)
qed

lemma sorted_sort_values_desc:
  "sorted_wrt (\<lambda>a b. desc_order (k a) (k b)) (sort_values_desc k xs)"
proof -
  let ?ys = "foldr (insort_desc k) (filter (\<lambda>x. \<not> isna (k x)) xs) []"
  have "sorted_wrt (\<lambda>a b. fl_le (k b) (k a)) ?ys"
    by (rule sorted_foldr_insort_desc) simp
  then have a: "sorted_wrt (\<lambda>a b. desc_order (k a) (k b)) ?ys"
    by (rule sorted_wrt_mono_rel [rotated]) (simp add: desc_order_def)
  have b: "sorted_wrt (\<lambda>a b. desc_order (k a) (k b)) (filter (\<lambda>x. isna (k x)) xs)"
    by (induction xs) (auto simp: desc_order_def)
  show ?thesis
    unfolding sort_values_desc_def sorted_wrt_append using a b by (auto simp: desc_order_def)
qed

lemma set_head: "set (head n xs) \<subseteq> set xs"
  by (auto simp: head_def dest: in_set_takeD)

lemma length_head_nonneg: "0 \<le> n \<Longrightarrow> int (length (head n xs)) \<le> n"
  by (simp add: head_def)

lemma sorted_wrt_head: "sorted_wrt P xs \<Longrightarrow> sorted_wrt P (head n xs)"
  by (simp add: head_def sorted_wrt_take)


lemma sum_list_pick:
  "distinct ks \<Longrightarrow> sum_list (map (\<lambda>k. if a = k then (c::'m::comm_monoid_add) else 0) ks) = (if a \<in> set ks then c else 0)"
  by (induction ks) auto

lemma sum_list_by_key:
  fixes f :: "'a \<Rightarrow> 'm::comm_monoid_add"
  assumes "distinct ks" "\<forall>x \<in> set xs. \<exists>k \<in> set ks. g x = Some k"
  shows "sum_list (map (\<lambda>k. sum_list (map f (filter (\<lambda>x. g x = Some k) xs))) ks) = sum_list (map f xs)"
  using assms(2)
proof (induction xs)
  case Nil
  then show ?case by simp
next
  case (Cons x xs)
  then obtain a where a: "a \<in> set ks" "g x = Some a" by auto
  have "sum_list (map (\<lambda>k. sum_list (map f (filter (\<lambda>x. g x = Some k) (x # xs)))) ks)
      = sum_list (map (\<lambda>k. (if a = k then f x else 0) + sum_list (map f (filter (\<lambda>x. g x = Some k) xs))) ks)"
    using a by (intro arg_cong [where f = sum_list] map_cong) auto
  also have "\<dots> = sum_list (map (\<lambda>k. if a = k then f x else 0) ks)
      + sum_list (map (\<lambda>k. sum_list (map f (filter (\<lambda>x. g x = Some k) xs))) ks)"
    by (simp add: sum_list_addf)
  also have "\<dots> = f x + sum_list (map f xs)"
    using Cons a assms(1) by (simp add: sum_list_pick)
  finally show ?case by simp
qed

lemma sum_list_sort_values_desc:
  "sum_list (map f (sort_values_desc k xs)) = sum_list (map (f :: 'a \<Rightarrow> 'm::comm_monoid_add) xs)"
proof -
  have "mset (map f (sort_values_desc k xs)) = mset (map f xs)"
    by (simp add: mset_sort_values_desc)
  then show ?thesis by (metis sum_mset_sum_list)
qed

lemma sint_sum_list:
  "sint (sum_list ws :: 64 word) = signed_take_bit 63 (sum_list (map sint ws))"
proof (induction ws)
  case Nil
  then show ?case by simp
next
  case (Cons w ws)
  have "sint (w + sum_list ws) = signed_take_bit 63 (sint w + sint (sum_list ws))"
    by (simp add: sint_word_ariths)
  also have "\<dots> = signed_take_bit 63 (sint w + sum_list (map sint ws))"
    unfolding Cons.IH
    by (metis signed_take_bit_add signed_take_bit_signed_take_bit min.idem)
  finally show ?case by simp
qed


lemma sint_sum_list_in_range:
  assumes "- (2 ^ 63) \<le> sum_list (map sint ws)" "sum_list (map sint ws) < 2 ^ 63"
  shows "sint (sum_list ws :: 64 word) = sum_list (map sint ws)"
  using assms by (simp add: sint_sum_list signed_take_bit_int_eq_self)

lemma groupby_agg_member:
  "(k, t) \<in> set (groupby_agg agg key v df) \<longleftrightarrow>
     (\<exists>r \<in> set df. key r = Some k) \<and> t = agg (map v (filter (\<lambda>r. key r = Some k) df))"
  by (auto simp: groupby_agg_def set_group_keys)

lemma length_groupby_agg: "length (groupby_agg agg key v df) \<le> length df"
proof -
  have "length (groupby_agg agg key v df) = length (remdups (List.map_filter key df))"
    by (simp add: groupby_agg_def group_keys_def)
  also have "\<dots> \<le> length (List.map_filter key df)"
    by (rule length_remdups_leq)
  also have "\<dots> \<le> length df"
    by (simp add: List.map_filter_def)
  finally show ?thesis .
qed

lemma top_emitters_rows:
  "set (get_top_emitters dt n None df) \<subseteq> set (groupby_agg (col_sum dt) country val df)"
  using set_head [of n "sort_values_desc (\<lambda>r. number dt (snd r))
                          (groupby_agg (col_sum dt) country val df)"]
  by (simp add: get_top_emitters_def truthy_def set_sort_values_desc)

lemma top_emitters_length:
  "0 \<le> n \<Longrightarrow> int (length (get_top_emitters dt n None df)) \<le> n"
  by (simp add: get_top_emitters_def truthy_def length_head_nonneg)

lemma top_emitters_sorted:
  "sorted_wrt (\<lambda>a b. desc_order (number dt (snd a)) (number dt (snd b)))
     (get_top_emitters dt n None df)"
  by (simp add: get_top_emitters_def truthy_def sorted_wrt_head sorted_sort_values_desc)

lemma top_emitters_present:
  assumes "\<exists>r \<in> set df. country r = Some c"
  shows "\<exists>t. (c, t) \<in> set (get_top_emitters dt (int (length df)) None df)"
proof -
  let ?t = "col_sum dt (map val (filter (\<lambda>r. country r = Some c) df))"
  have "(c, ?t) \<in> set (groupby_agg (col_sum dt) country val df)"
    using assms by (simp add: groupby_agg_member)
  then have "(c, ?t) \<in> set (get_top_emitters dt (int (length df)) None df)"
    using length_groupby_agg [of "col_sum dt" country val df]
    by (simp add: get_top_emitters_def truthy_def head_def set_sort_values_desc
        length_sort_values_desc)
  then show ?thesis ..
qed

lemma whole_Fin: "whole x \<Longrightarrow> x = Fin (fin_value x)"
  by (cases x) simp_all

lemma whole_Ints: "whole x \<Longrightarrow> fin_value x \<in> \<int>"
  by (cases x) (auto simp: Ints_def intro: sym)

lemma whole_sum:
  "\<forall>x \<in> set xs. whole x \<Longrightarrow> whole (Fin (sum_list (map fin_value xs)))"
proof -
  assume "\<forall>x \<in> set xs. whole x"
  then have "sum_list (map fin_value xs) \<in> \<int>"
    by (induction xs) (auto simp: whole_Ints)
  then show ?thesis by (auto simp: Ints_def)
qed

lemma pd_sum_whole:
  "\<forall>x \<in> set xs. whole x \<Longrightarrow> pd_sum xs = Fin (sum_list (map fin_value xs))"
proof (induction xs)
  case Nil
  then show ?case by (simp add: pd_sum_sum_list zero_fl_def)
next
  case (Cons x xs)
  then obtain r where r: "x = Fin r" using whole_Fin by fastforce
  from Cons have "pd_sum xs = Fin (sum_list (map fin_value xs))" by simp
  then show ?case
    using r by (simp add: pd_sum_sum_list isna_def plus_fl_def)
qed

lemma magnitude_abs: "magnitude x = \<bar>fin_value x\<bar>"
  by (cases x) simp_all

text \<open>
  Claim C2. Without a year filter \<open>get_top_emitters\<close> returns at most \<open>n\<close> rows when
  \<open>n\<close> is not negative, in descending order of total\_emissions (a total that is NaN
  stands last). Each row's total is the sum of the values of the input rows of its
  country in the arithmetic of the column. On an int64 column that is the sum modulo
  \<open>2^64\<close>: it is the sum of the numbers exactly when that sum lies between \<open>-2^63\<close> and
  \<open>2^63 - 1\<close>. On a float64 column it is the sum of the values that are present, and
  the sum of the numbers when the values are whole numbers whose absolute values add up
  to at most \<open>2^53\<close>.
\<close>

theorem top_emitters_sorted_sums:
  fixes dfi :: "64 word obs list" and dff :: "fl obs list"
  shows
  "(0 \<le> n \<longrightarrow> int (length (get_top_emitters int64_column n None dfi)) \<le> n
             \<and> int (length (get_top_emitters float64_column n None dff)) \<le> n)
   \<and> sorted_wrt (\<lambda>a b. sint (snd b) \<le> sint (snd a)) (get_top_emitters int64_column n None dfi)
   \<and> sorted_wrt (\<lambda>a b. desc_order (snd a) (snd b)) (get_top_emitters float64_column n None dff)
   \<and> (\<forall>(c, t) \<in> set (get_top_emitters int64_column n None dfi).
         t = sum_list (map val (filter (\<lambda>r. country r = Some c) dfi))
       \<and> (sint t = sum_list (map (\<lambda>r. sint (val r)) (filter (\<lambda>r. country r = Some c) dfi))
            \<longleftrightarrow> - (2 ^ 63) \<le> sum_list (map (\<lambda>r. sint (val r)) (filter (\<lambda>r. country r = Some c) dfi))
               \<and> sum_list (map (\<lambda>r. sint (val r)) (filter (\<lambda>r. country r = Some c) dfi)) < 2 ^ 63))
   \<and> (\<forall>(c, t) \<in> set (get_top_emitters float64_column n None dff).
         t = sum_list (filter (\<lambda>x. \<not> isna x) (map val (filter (\<lambda>r. country r = Some c) dff)))
       \<and> (exact_sum (map val (filter (\<lambda>r. country r = Some c) dff))
            \<longrightarrow> t = Fin (sum_list (map (\<lambda>r. fin_value (val r))
                                   (filter (\<lambda>r. country r = Some c) dff)))))"
proof -
  have len: "0 \<le> n \<longrightarrow> int (length (get_top_emitters int64_column n None dfi)) \<le> n
             \<and> int (length (get_top_emitters float64_column n None dff)) \<le> n"
    by (simp add: top_emitters_length)
  have "sorted_wrt (\<lambda>a b. desc_order (number int64_column (snd a)) (number int64_column (snd b)))
          (get_top_emitters int64_column n None dfi)"
    by (rule top_emitters_sorted)
  then have ordi: "sorted_wrt (\<lambda>a b. sint (snd b) \<le> sint (snd a))
          (get_top_emitters int64_column n None dfi)"
    by (rule sorted_wrt_mono_rel [rotated])
       (simp add: int64_column_def desc_order_def isna_def del: of_int_sint)
  have ordf: "sorted_wrt (\<lambda>a b. desc_order (snd a) (snd b))
          (get_top_emitters float64_column n None dff)"
    using top_emitters_sorted [of float64_column n dff] by (simp add: float64_column_def)
  have sumi: "\<forall>(c, t) \<in> set (get_top_emitters int64_column n None dfi).
         t = sum_list (map val (filter (\<lambda>r. country r = Some c) dfi))
       \<and> (sint t = sum_list (map (\<lambda>r. sint (val r)) (filter (\<lambda>r. country r = Some c) dfi))
            \<longleftrightarrow> - (2 ^ 63) \<le> sum_list (map (\<lambda>r. sint (val r)) (filter (\<lambda>r. country r = Some c) dfi))
               \<and> sum_list (map (\<lambda>r. sint (val r)) (filter (\<lambda>r. country r = Some c) dfi)) < 2 ^ 63)"
  proof (clarify)
    fix c t assume "(c, t) \<in> set (get_top_emitters int64_column n None dfi)"
    then have "(c, t) \<in> set (groupby_agg (col_sum int64_column) country val dfi)"
      using top_emitters_rows by blast
    then have t: "t = sum_list (map val (filter (\<lambda>r. country r = Some c) dfi))"
      by (simp add: groupby_agg_member int64_column_def)
    let ?S = "sum_list (map (\<lambda>r. sint (val r)) (filter (\<lambda>r. country r = Some c) dfi))"
    have wrap: "sint t = signed_take_bit 63 ?S"
      unfolding t by (simp add: sint_sum_list comp_def)
    have "- (2 ^ 63) \<le> sint t" "sint t < 2 ^ 63"
      using sint_ge [of t] sint_lt [of t] by simp_all
    then have "sint t = ?S \<longleftrightarrow> - (2 ^ 63) \<le> ?S \<and> ?S < 2 ^ 63"
      using wrap by (auto simp: signed_take_bit_int_eq_self)
    then show "t = sum_list (map val (filter (\<lambda>r. country r = Some c) dfi))
       \<and> (sint t = ?S \<longleftrightarrow> - (2 ^ 63) \<le> ?S \<and> ?S < 2 ^ 63)"
      using t by blast
  qed
  have sumf: "\<forall>(c, t) \<in> set (get_top_emitters float64_column n None dff).
         t = sum_list (filter (\<lambda>x. \<not> isna x) (map val (filter (\<lambda>r. country r = Some c) dff)))
       \<and> (exact_sum (map val (filter (\<lambda>r. country r = Some c) dff))
            \<longrightarrow> t = Fin (sum_list (map (\<lambda>r. fin_value (val r))
                                   (filter (\<lambda>r. country r = Some c) dff))))"
  proof (clarify)
    fix c t assume "(c, t) \<in> set (get_top_emitters float64_column n None dff)"
    then have "(c, t) \<in> set (groupby_agg (col_sum float64_column) country val dff)"
      using top_emitters_rows by blast
    then have t: "t = pd_sum (map val (filter (\<lambda>r. country r = Some c) dff))"
      by (simp add: groupby_agg_member float64_column_def)
    have "t = Fin (sum_list (map (\<lambda>r. fin_value (val r)) (filter (\<lambda>r. country r = Some c) dff)))"
      if "exact_sum (map val (filter (\<lambda>r. country r = Some c) dff))"
      using that pd_sum_whole [of "map val (filter (\<lambda>r. country r = Some c) dff)"]
      by (simp add: t exact_sum_def comp_def)
    then show "t = sum_list (filter (\<lambda>x. \<not> isna x) (map val (filter (\<lambda>r. country r = Some c) dff)))
       \<and> (exact_sum (map val (filter (\<lambda>r. country r = Some c) dff))
            \<longrightarrow> t = Fin (sum_list (map (\<lambda>r. fin_value (val r))
                                   (filter (\<lambda>r. country r = Some c) dff))))"
      using t by (simp add: pd_sum_sum_list)
  qed
  show ?thesis using len ordi ordf sumi sumf by blast
qed

text \<open>
  The claim as stated fails on an int64 column: two values of \<open>2^62\<close> add up to
  \<open>-2^63\<close>, which is not their sum and puts the country last.
\<close>

theorem top_emitters_int64_wrap_counterexample:
  "get_top_emitters int64_column 2 None ex_wrap = [(''B'', 1), (''A'', 9223372036854775808)]
   \<and> sint (9223372036854775808 :: 64 word) = - 9223372036854775808
   \<and> sum_list (map (\<lambda>r. sint (val r)) (filter (\<lambda>r. country r = Some ''A'') ex_wrap))
       = 9223372036854775808
   \<and> sint (1 :: 64 word) = 1"
  by (simp add: get_top_emitters_def int64_column_def ex_wrap_def mk_def truthy_def head_def
      sort_values_desc_def groupby_agg_def group_keys_def List.map_filter_def isna_def)

theorem top_emitters_sorted_sums_witness:
  "get_top_emitters int64_column 2 None ex_whole = [(''A'', 325), (''B'', 50)]
   \<and> get_top_emitters float64_column 2 None ex_sectors = [(''A'', Fin 325), (''B'', Fin 50)]
   \<and> sum_list (map (\<lambda>r. sint (val r)) (filter (\<lambda>r. country r = Some ''A'') ex_whole)) = 325
   \<and> sint (325 :: 64 word) = 325
   \<and> exact_sum (map val (filter (\<lambda>r. country r = Some ''A'') ex_sectors))
   \<and> sum_list (map (\<lambda>r. fin_value (val r)) (filter (\<lambda>r. country r = Some ''A'') ex_sectors)) = 325
   \<and> desc_order (Fin 325) (Fin 50)"
proof -
  have topi: "get_top_emitters int64_column 2 None ex_whole = [(''A'', 325), (''B'', 50)]"
    by (simp add: get_top_emitters_def int64_column_def ex_whole_def mk_def truthy_def head_def
        sort_values_desc_def groupby_agg_def group_keys_def List.map_filter_def isna_def)
  have topf: "get_top_emitters float64_column 2 None ex_sectors = [(''A'', Fin 325), (''B'', Fin 50)]"
    by (simp add: get_top_emitters_def float64_column_def ex_sectors_def mk_def truthy_def head_def
        sort_values_desc_def groupby_agg_def group_keys_def List.map_filter_def pd_sum_def isna_def)
  have exact: "exact_sum (map val (filter (\<lambda>r. country r = Some ''A'') ex_sectors))"
    by (simp add: exact_sum_def ex_sectors_def mk_def)
  have sumi: "sum_list (map (\<lambda>r. sint (val r)) (filter (\<lambda>r. country r = Some ''A'') ex_whole)) = 325"
    by (simp add: ex_whole_def mk_def)
  from top_emitters_sorted_sums [of 2 ex_whole ex_sectors]
  have "\<forall>(c, t) \<in> set (get_top_emitters float64_column 2 None ex_sectors).
         t = sum_list (filter (\<lambda>x. \<not> isna x) (map val (filter (\<lambda>r. country r = Some c) ex_sectors)))
       \<and> (exact_sum (map val (filter (\<lambda>r. country r = Some c) ex_sectors))
            \<longrightarrow> t = Fin (sum_list (map (\<lambda>r. fin_value (val r))
                                   (filter (\<lambda>r. country r = Some c) ex_sectors))))"
    by (elim conjE)
  then have "Fin 325 = Fin (sum_list (map (\<lambda>r. fin_value (val r))
                                   (filter (\<lambda>r. country r = Some ''A'') ex_sectors)))"
    using exact unfolding topf by simp
  then show ?thesis
    using topi topf exact sumi by (simp add: desc_order_def isna_def)
qed

lemma sum_list_filter_le:
  fixes f :: "'a \<Rightarrow> 'b::linordered_idom"
  assumes "\<forall>x \<in> set xs. 0 \<le> f x"
  shows "sum_list (map f (filter P xs)) \<le> sum_list (map f xs)"
  using assms by (induction xs) (auto simp: add_increasing)

lemma breakdown_rows:
  "c \<noteq> [] \<Longrightarrow>
     get_sectoral_breakdown dt (Some c) df
       = sort_values_desc (\<lambda>r. number dt (snd r))
           (groupby_agg (col_sum dt) sector val (filter (\<lambda>r. country r = Some c) df))"
  by (simp add: get_sectoral_breakdown_def truthy_str_def)

lemma sum_list_groupby_agg:
  fixes g :: "'v \<Rightarrow> 'm::comm_monoid_add"
  shows "sum_list (map (\<lambda>r. g (snd r)) (sort_values_desc k (groupby_agg agg key v df)))
       = sum_list (map (\<lambda>k. g (agg (map v (filter (\<lambda>r. key r = Some k) df)))) (group_keys key df))"
  by (simp add: sum_list_sort_values_desc groupby_agg_def comp_def)

lemma group_keys_cover:
  "\<forall>r \<in> set df. key r \<noteq> None \<Longrightarrow> \<forall>x \<in> set df. \<exists>k \<in> set (group_keys key df). key x = Some k"
  by (fastforce simp: set_group_keys)

lemma breakdown_total_int64:
  fixes df :: "64 word obs list"
  assumes c: "c \<noteq> []" and sec: "\<forall>r \<in> set df. country r = Some c \<longrightarrow> sector r \<noteq> None"
  defines "rows \<equiv> filter (\<lambda>r. country r = Some c) df"
  shows "sum_list (map snd (get_sectoral_breakdown int64_column (Some c) df))
           = sum_list (map val rows)"
    and "sum_list (map (\<lambda>r. \<bar>sint (val r)\<bar>) rows) < 2 ^ 63 \<Longrightarrow>
         sum_list (map (\<lambda>r. sint (snd r)) (get_sectoral_breakdown int64_column (Some c) df))
           = sint (sum_list (map val rows))"
proof -
  have cover: "\<forall>x \<in> set rows. \<exists>k \<in> set (group_keys sector rows). sector x = Some k"
    using sec by (intro group_keys_cover) (simp add: rows_def)
  have "sum_list (map snd (get_sectoral_breakdown int64_column (Some c) df))
      = sum_list (map (\<lambda>k. sum_list (map val (filter (\<lambda>r. sector r = Some k) rows)))
                   (group_keys sector rows))"
    using sum_list_groupby_agg [of "\<lambda>x. x" _ sum_list sector val rows]
    by (simp add: breakdown_rows [OF c] rows_def int64_column_def)
  also have "\<dots> = sum_list (map val rows)"
    using cover by (intro sum_list_by_key distinct_group_keys)
  finally show "sum_list (map snd (get_sectoral_breakdown int64_column (Some c) df))
           = sum_list (map val rows)" .
next
  assume bound: "sum_list (map (\<lambda>r. \<bar>sint (val r)\<bar>) rows) < 2 ^ 63"
  have cover: "\<forall>x \<in> set rows. \<exists>k \<in> set (group_keys sector rows). sector x = Some k"
    using sec by (intro group_keys_cover) (simp add: rows_def)
  have in_range: "sint (sum_list (map val (filter P rows)))
                    = sum_list (map (\<lambda>r. sint (val r)) (filter P rows))" for P
  proof -
    have "\<bar>sum_list (map (\<lambda>r. sint (val r)) (filter P rows))\<bar>
            \<le> sum_list (map (\<lambda>r. \<bar>sint (val r)\<bar>) (filter P rows))"
      using sum_list_abs [of "map (\<lambda>r. sint (val r)) (filter P rows)"] by (simp add: comp_def)
    also have "\<dots> \<le> sum_list (map (\<lambda>r. \<bar>sint (val r)\<bar>) rows)"
      by (rule sum_list_filter_le) simp
    finally have "\<bar>sum_list (map (\<lambda>r. sint (val r)) (filter P rows))\<bar> < 2 ^ 63"
      using bound by simp
    then show ?thesis
      using sint_sum_list_in_range [of "map val (filter P rows)"] by (simp add: comp_def)
  qed
  have "sum_list (map (\<lambda>r. sint (snd r)) (get_sectoral_breakdown int64_column (Some c) df))
      = sum_list (map (\<lambda>k. sint (sum_list (map val (filter (\<lambda>r. sector r = Some k) rows))))
                   (group_keys sector rows))"
    using sum_list_groupby_agg [of sint _ sum_list sector val rows]
    by (simp add: breakdown_rows [OF c] rows_def int64_column_def)
  also have "\<dots> = sum_list (map (\<lambda>k. sum_list (map (\<lambda>r. sint (val r))
                        (filter (\<lambda>r. sector r = Some k) rows))) (group_keys sector rows))"
    by (simp add: in_range)
  also have "\<dots> = sum_list (map (\<lambda>r. sint (val r)) rows)"
    using cover by (intro sum_list_by_key distinct_group_keys)
  also have "\<dots> = sint (sum_list (map val rows))"
    using in_range [of "\<lambda>r. True"] by simp
  finally show "sum_list (map (\<lambda>r. sint (snd r)) (get_sectoral_breakdown int64_column (Some c) df))
           = sint (sum_list (map val rows))" .
qed

lemma breakdown_total_float64:
  fixes df :: "fl obs list"
  assumes c: "c \<noteq> []" and sec: "\<forall>r \<in> set df. country r = Some c \<longrightarrow> sector r \<noteq> None"
  defines "rows \<equiv> filter (\<lambda>r. country r = Some c) df"
  assumes exact: "exact_sum (map val rows)"
  shows "exact_sum (map snd (get_sectoral_breakdown float64_column (Some c) df))"
    and "Fin (sum_list (map (\<lambda>r. fin_value (snd r))
                 (get_sectoral_breakdown float64_column (Some c) df)))
           = pd_sum (map val rows)"
proof -
  have cover: "\<forall>x \<in> set rows. \<exists>k \<in> set (group_keys sector rows). sector x = Some k"
    using sec by (intro group_keys_cover) (simp add: rows_def)
  have whole_rows: "\<forall>r \<in> set rows. whole (val r)"
    using exact by (simp add: exact_sum_def)
  have cell: "pd_sum (map val (filter P rows))
                = Fin (sum_list (map (\<lambda>r. fin_value (val r)) (filter P rows)))" for P
    using pd_sum_whole [of "map val (filter P rows)"] whole_rows by (simp add: comp_def)
  have bd: "get_sectoral_breakdown float64_column (Some c) df
              = sort_values_desc snd (groupby_agg pd_sum sector val rows)"
    by (simp add: breakdown_rows [OF c] rows_def float64_column_def)
  have "\<forall>x \<in> set (map snd (get_sectoral_breakdown float64_column (Some c) df)). whole x"
  proof
    fix x assume "x \<in> set (map snd (get_sectoral_breakdown float64_column (Some c) df))"
    then obtain k where "(k, x) \<in> set (groupby_agg pd_sum sector val rows)"
      by (auto simp: bd set_sort_values_desc)
    then have "x = pd_sum (map val (filter (\<lambda>r. sector r = Some k) rows))"
      by (simp add: groupby_agg_member)
    moreover have "whole (Fin (sum_list (map fin_value (map val (filter (\<lambda>r. sector r = Some k) rows)))))"
      using whole_rows by (intro whole_sum) simp
    ultimately show "whole x"
      by (simp add: cell comp_def)
  qed
  moreover have "sum_list (map magnitude (map snd (get_sectoral_breakdown float64_column (Some c) df)))
                   \<le> 2 ^ 53"
  proof -
    have "sum_list (map magnitude (map snd (get_sectoral_breakdown float64_column (Some c) df)))
        = sum_list (map (\<lambda>k. magnitude (pd_sum (map val (filter (\<lambda>r. sector r = Some k) rows))))
                     (group_keys sector rows))"
      using sum_list_groupby_agg [of magnitude snd pd_sum sector val rows]
      by (simp add: bd comp_def)
    also have "\<dots> = sum_list (map (\<lambda>k. \<bar>sum_list (map (\<lambda>r. fin_value (val r))
                          (filter (\<lambda>r. sector r = Some k) rows))\<bar>) (group_keys sector rows))"
      by (simp add: cell)
    also have "\<dots> \<le> sum_list (map (\<lambda>k. sum_list (map (\<lambda>r. magnitude (val r))
                          (filter (\<lambda>r. sector r = Some k) rows))) (group_keys sector rows))"
    proof (rule sum_list_mono)
      fix k
      show "\<bar>sum_list (map (\<lambda>r. fin_value (val r)) (filter (\<lambda>r. sector r = Some k) rows))\<bar>
              \<le> sum_list (map (\<lambda>r. magnitude (val r)) (filter (\<lambda>r. sector r = Some k) rows))"
        using sum_list_abs [of "map (\<lambda>r. fin_value (val r)) (filter (\<lambda>r. sector r = Some k) rows)"]
        by (simp add: comp_def magnitude_abs)
    qed
    also have "\<dots> = sum_list (map (\<lambda>r. magnitude (val r)) rows)"
      using cover by (intro sum_list_by_key distinct_group_keys)
    also have "\<dots> \<le> 2 ^ 53"
      using exact by (simp add: exact_sum_def comp_def)
    finally show ?thesis .
  qed
  ultimately show "exact_sum (map snd (get_sectoral_breakdown float64_column (Some c) df))"
    by (simp add: exact_sum_def)
  have "sum_list (map (\<lambda>r. fin_value (snd r)) (get_sectoral_breakdown float64_column (Some c) df))
      = sum_list (map (\<lambda>k. fin_value (pd_sum (map val (filter (\<lambda>r. sector r = Some k) rows))))
                   (group_keys sector rows))"
    using sum_list_groupby_agg [of fin_value snd pd_sum sector val rows]
    by (simp add: bd)
  also have "\<dots> = sum_list (map (\<lambda>k. sum_list (map (\<lambda>r. fin_value (val r))
                        (filter (\<lambda>r. sector r = Some k) rows))) (group_keys sector rows))"
    by (simp add: cell)
  also have "\<dots> = sum_list (map (\<lambda>r. fin_value (val r)) rows)"
    using cover by (intro sum_list_by_key distinct_group_keys)
  finally show "Fin (sum_list (map (\<lambda>r. fin_value (snd r))
                 (get_sectoral_breakdown float64_column (Some c) df)))
           = pd_sum (map val rows)"
    using cell [of "\<lambda>r. True"] by simp
qed

text \<open>
  Claim C4. For a country whose name is not empty and whose rows all have a sector, the
  totals of \<open>get_sectoral_breakdown\<close> for that country add up to the total
  \<open>get_top_emitters\<close> gives it, whatever \<open>n\<close> the country appears under: on an int64
  column as int64 numbers, and as whole numbers when the absolute values of the
  country's values add up to less than \<open>2^63\<close>; on a float64 column when the country's
  values are whole numbers whose absolute values add up to at most \<open>2^53\<close>, and then
  the totals of the breakdown are such numbers too. A country that has a row does appear
  when \<open>n\<close> is the number of rows.
\<close>

theorem sectoral_breakdown_total:
  fixes dfi :: "64 word obs list" and dff :: "fl obs list"
  assumes "c \<noteq> []"
  shows
  "((\<forall>r \<in> set dfi. country r = Some c \<longrightarrow> sector r \<noteq> None) \<longrightarrow>
      (\<forall>n t. (c, t) \<in> set (get_top_emitters int64_column n None dfi) \<longrightarrow>
          sum_list (map snd (get_sectoral_breakdown int64_column (Some c) dfi)) = t
        \<and> (sum_list (map (\<lambda>r. \<bar>sint (val r)\<bar>) (filter (\<lambda>r. country r = Some c) dfi)) < 2 ^ 63
             \<longrightarrow> sum_list (map (\<lambda>r. sint (snd r))
                     (get_sectoral_breakdown int64_column (Some c) dfi)) = sint t)))
   \<and> ((\<forall>r \<in> set dff. country r = Some c \<longrightarrow> sector r \<noteq> None)
        \<and> exact_sum (map val (filter (\<lambda>r. country r = Some c) dff)) \<longrightarrow>
      (\<forall>n t. (c, t) \<in> set (get_top_emitters float64_column n None dff) \<longrightarrow>
          exact_sum (map snd (get_sectoral_breakdown float64_column (Some c) dff))
        \<and> Fin (sum_list (map (\<lambda>r. fin_value (snd r))
                  (get_sectoral_breakdown float64_column (Some c) dff))) = t))
   \<and> ((\<exists>r \<in> set dfi. country r = Some c) \<longrightarrow>
        (\<exists>t. (c, t) \<in> set (get_top_emitters int64_column (int (length dfi)) None dfi)))
   \<and> ((\<exists>r \<in> set dff. country r = Some c) \<longrightarrow>
        (\<exists>t. (c, t) \<in> set (get_top_emitters float64_column (int (length dff)) None dff)))"
proof -
  have int_part: "sum_list (map snd (get_sectoral_breakdown int64_column (Some c) dfi)) = t
        \<and> (sum_list (map (\<lambda>r. \<bar>sint (val r)\<bar>) (filter (\<lambda>r. country r = Some c) dfi)) < 2 ^ 63
             \<longrightarrow> sum_list (map (\<lambda>r. sint (snd r))
                     (get_sectoral_breakdown int64_column (Some c) dfi)) = sint t)"
    if sec: "\<forall>r \<in> set dfi. country r = Some c \<longrightarrow> sector r \<noteq> None"
      and mem: "(c, t) \<in> set (get_top_emitters int64_column n None dfi)" for n t
  proof -
    have "(c, t) \<in> set (groupby_agg (col_sum int64_column) country val dfi)"
      using mem top_emitters_rows by blast
    then have t: "t = sum_list (map val (filter (\<lambda>r. country r = Some c) dfi))"
      by (simp add: groupby_agg_member int64_column_def)
    show ?thesis
      unfolding t using breakdown_total_int64 [OF assms sec] by blast
  qed
  have float_part: "exact_sum (map snd (get_sectoral_breakdown float64_column (Some c) dff))
        \<and> Fin (sum_list (map (\<lambda>r. fin_value (snd r))
                  (get_sectoral_breakdown float64_column (Some c) dff))) = t"
    if sec: "\<forall>r \<in> set dff. country r = Some c \<longrightarrow> sector r \<noteq> None"
      and exact: "exact_sum (map val (filter (\<lambda>r. country r = Some c) dff))"
      and mem: "(c, t) \<in> set (get_top_emitters float64_column n None dff)" for n t
  proof -
    have "(c, t) \<in> set (groupby_agg (col_sum float64_column) country val dff)"
      using mem top_emitters_rows by blast
    then have t: "t = pd_sum (map val (filter (\<lambda>r. country r = Some c) dff))"
      by (simp add: groupby_agg_member float64_column_def)
    show ?thesis
      unfolding t using breakdown_total_float64 [OF assms sec exact] by blast
  qed
  show ?thesis
    using int_part float_part top_emitters_present [of dfi c int64_column]
      top_emitters_present [of dff c float64_column]
    by blast
qed

text \<open>
  Two cleaned frames on which the claim fails as stated: \<open>groupby('sector')\<close> leaves out
  the row that has no sector, and \<open>if country:\<close> takes the empty name for no filter.
\<close>

theorem sectoral_breakdown_total_counterexample:
  "cleaned ex_gap
   \<and> get_top_emitters float64_column 10 None ex_gap = [(''A'', Fin 300)]
   \<and> get_sectoral_breakdown float64_column (Some ''A'') ex_gap = [(''Energy'', Fin 100)]
   \<and> sum_list (map snd (get_sectoral_breakdown float64_column (Some ''A'') ex_gap)) \<noteq> Fin 300
   \<and> cleaned ex_blank
   \<and> get_top_emitters float64_column 10 None ex_blank = [(''B'', Fin 2), ([], Fin 1)]
   \<and> get_sectoral_breakdown float64_column (Some []) ex_blank = [(''Energy'', Fin 3)]
   \<and> sum_list (map snd (get_sectoral_breakdown float64_column (Some []) ex_blank)) \<noteq> Fin 1"
  by (simp add: cleaned_def critical_ok_def derived_ok_def ex_gap_def ex_blank_def mk_def
      get_top_emitters_def get_sectoral_breakdown_def float64_column_def truthy_def truthy_str_def
      head_def sort_values_desc_def groupby_agg_def group_keys_def List.map_filter_def pd_sum_def
      isna_def plus_fl_def zero_fl_def)

theorem sectoral_breakdown_total_witness:
  "(''A'', 325) \<in> set (get_top_emitters int64_column 2 None ex_whole)
   \<and> get_sectoral_breakdown int64_column (Some ''A'') ex_whole
       = [(''Transport'', 200), (''Energy'', 125)]
   \<and> sum_list (map snd (get_sectoral_breakdown int64_column (Some ''A'') ex_whole)) = 325
   \<and> (''A'', Fin 325) \<in> set (get_top_emitters float64_column 2 None ex_sectors)
   \<and> get_sectoral_breakdown float64_column (Some ''A'') ex_sectors
       = [(''Transport'', Fin 200), (''Energy'', Fin 125)]
   \<and> exact_sum (map val (filter (\<lambda>r. country r = Some ''A'') ex_sectors))
   \<and> Fin (sum_list (map (\<lambda>r. fin_value (snd r))
             (get_sectoral_breakdown float64_column (Some ''A'') ex_sectors))) = Fin 325"
proof -
  have name: "''A'' \<noteq> []" by simp
  have seci: "\<forall>r \<in> set ex_whole. country r = Some ''A'' \<longrightarrow> sector r \<noteq> None"
    by (simp add: ex_whole_def mk_def)
  have secf: "\<forall>r \<in> set ex_sectors. country r = Some ''A'' \<longrightarrow> sector r \<noteq> None"
    by (simp add: ex_sectors_def mk_def)
  have exact: "exact_sum (map val (filter (\<lambda>r. country r = Some ''A'') ex_sectors))"
    by (simp add: exact_sum_def ex_sectors_def mk_def)
  have topi: "get_top_emitters int64_column 2 None ex_whole = [(''A'', 325), (''B'', 50)]"
    by (simp add: get_top_emitters_def int64_column_def ex_whole_def mk_def truthy_def head_def
        sort_values_desc_def groupby_agg_def group_keys_def List.map_filter_def isna_def)
  have topf: "get_top_emitters float64_column 2 None ex_sectors = [(''A'', Fin 325), (''B'', Fin 50)]"
    by (simp add: get_top_emitters_def float64_column_def ex_sectors_def mk_def truthy_def head_def
        sort_values_desc_def groupby_agg_def group_keys_def List.map_filter_def pd_sum_def isna_def)
  have bdi: "get_sectoral_breakdown int64_column (Some ''A'') ex_whole
       = [(''Transport'', 200), (''Energy'', 125)]"
    by (simp add: get_sectoral_breakdown_def int64_column_def ex_whole_def mk_def truthy_str_def
        sort_values_desc_def groupby_agg_def group_keys_def List.map_filter_def isna_def)
  have bdf: "get_sectoral_breakdown float64_column (Some ''A'') ex_sectors
       = [(''Transport'', Fin 200), (''Energy'', Fin 125)]"
    by (simp add: get_sectoral_breakdown_def float64_column_def ex_sectors_def mk_def
        truthy_str_def sort_values_desc_def groupby_agg_def group_keys_def List.map_filter_def
        pd_sum_def isna_def)
  have memi: "(''A'', 325) \<in> set (get_top_emitters int64_column 2 None ex_whole)"
    using topi by simp
  have memf: "(''A'', Fin 325) \<in> set (get_top_emitters float64_column 2 None ex_sectors)"
    using topf by simp
  from sectoral_breakdown_total [OF name, of ex_whole ex_sectors] seci secf exact memi memf
  have "sum_list (map snd (get_sectoral_breakdown int64_column (Some ''A'') ex_whole)) = 325"
    and "Fin (sum_list (map (\<lambda>r. fin_value (snd r))
             (get_sectoral_breakdown float64_column (Some ''A'') ex_sectors))) = Fin 325"
    by blast+
  then show ?thesis
    using memi memf bdi bdf exact by simp
qed


lemma filter_key_find:
  "distinct (map f xs) \<Longrightarrow>
     filter (\<lambda>r. f r = k) xs = (case find (\<lambda>r. f r = k) xs of None \<Rightarrow> [] | Some m \<Rightarrow> [m])"
proof (induction xs)
  case Nil
  then show ?case by simp
next
  case (Cons x xs)
  show ?case
  proof (cases "f x = k")
    case True
    then have "filter (\<lambda>r. f r = k) xs = []"
      using Cons.prems by (auto simp: filter_empty_conv) (metis imageI)
    then show ?thesis using True by simp
  next
    case False
    then show ?thesis using Cons by simp
  qed
qed

lemma merge_left_unique:
  assumes "distinct (map rkey right)"
  shows "merge_left lkey rkey join left right
       = map (\<lambda>l. join l (find (\<lambda>r. rkey r = lkey l) right)) left"
proof -
  have "(case filter (\<lambda>r. rkey r = lkey l) right of [] \<Rightarrow> [join l None]
          | ms \<Rightarrow> map (\<lambda>m. join l (Some m)) ms)
        = [join l (find (\<lambda>r. rkey r = lkey l) right)]" for l
    by (simp add: filter_key_find [OF assms] split: option.split)
  then show ?thesis
    by (simp add: merge_left_def)
qed

lemma distinct_yearly_totals_keys:
  "distinct (map (\<lambda>((c, y), t). (Some c, Some y)) (groupby_sum key v df))"
proof -
  have "map (\<lambda>((c, y), t). (Some c, Some y)) (groupby_sum key v df)
      = map (\<lambda>(c, y). (Some c, Some y)) (group_keys key df)"
    by (simp add: groupby_sum_def comp_def case_prod_beta)
  moreover have "inj_on (\<lambda>(c, y). (Some c, Some y)) (set (group_keys key df))"
    by (auto simp: inj_on_def)
  ultimately show ?thesis
    by (simp add: distinct_map distinct_group_keys)
qed

lemma add_derived_metrics_plain:
  "add_derived_metrics None None df =
     map (\<lambda>r. with_total r
           (case find (\<lambda>m. Some (fst (fst m)) = country r \<and> Some (snd (fst m)) = year r)
                  (groupby_sum country_year val df) of
              None \<Rightarrow> NaN | Some m \<Rightarrow> snd m)) df"
  unfolding add_derived_metrics_def Let_def merge_left_unique [OF distinct_yearly_totals_keys]
  by (simp add: case_prod_beta split: option.split)

lemma truncate_with_total: "obs.truncate (with_total r t) = r"
  by (simp add: with_total_def obs.truncate_def obs.extend_def)

text \<open>
  Claim C6. Without a population and a GDP table \<open>add_derived_metrics\<close> returns as
  many rows as it was given, in the same order, with the country, sector and value
  columns as they were; cutting the added columns off gives the input frame back.
\<close>

theorem add_derived_metrics_frame:
  "length (add_derived_metrics None None df) = length df
   \<and> map country (add_derived_metrics None None df) = map country df
   \<and> map sector (add_derived_metrics None None df) = map sector df
   \<and> map val (add_derived_metrics None None df) = map val df
   \<and> map obs.truncate (add_derived_metrics None None df) = df"
proof -
  have t: "map obs.truncate (add_derived_metrics None None df) = df"
    by (simp add: add_derived_metrics_plain comp_def truncate_with_total)
  have c: "map country (add_derived_metrics None None df) = map country df"
    by (simp add: add_derived_metrics_plain comp_def with_total_def obs.extend_def)
  have s: "map sector (add_derived_metrics None None df) = map sector df"
    by (simp add: add_derived_metrics_plain comp_def with_total_def obs.extend_def)
  have v: "map val (add_derived_metrics None None df) = map val df"
    by (simp add: add_derived_metrics_plain comp_def with_total_def obs.extend_def)
  have l: "length (add_derived_metrics None None df) = length df"
    by (simp add: add_derived_metrics_plain)
  show ?thesis using t c s v l by simp
qed


section \<open>Properties of calculate\_growth\_rates\<close>

lemma sort_key_groupby_sum: "sort_key fst (groupby_sum key v df) = groupby_sum key v df"
  by (rule sort_key_id_if_sorted) (simp add: map_fst_groupby_sum sorted_group_keys)

lemma strict_sorted_groupby_sum: "sorted_wrt (<) (map fst (groupby_sum key v df))"
  by (simp add: map_fst_groupby_sum strict_sorted_iff sorted_group_keys distinct_group_keys)

lemma fst_mono_lex: "(a :: 'a::linorder \<times> 'b::linorder) \<le> b \<Longrightarrow> fst a \<le> fst b"
  by (auto simp: less_eq_prod_def)

lemma find_same_group_sorted:
  fixes x :: "('a::linorder \<times> 'b::linorder) \<times> 'c"
  assumes "sorted (map fst (rev seen @ [x]))"
  shows "find (\<lambda>y. fst (fst y) = fst (fst x)) seen
       = (case seen of [] \<Rightarrow> None | s # ss \<Rightarrow> if fst (fst s) = fst (fst x) then Some s else None)"
proof (cases seen)
  case Nil
  then show ?thesis by simp
next
  case (Cons s ss)
  show ?thesis
  proof (cases "fst (fst s) = fst (fst x)")
    case True
    then show ?thesis using Cons by simp
  next
    case False
    have sx: "fst s \<le> fst x"
      using assms Cons by (simp add: sorted_append)
    have "fst (fst z) \<noteq> fst (fst x)" if "z \<in> set ss" for z
    proof
      assume eq: "fst (fst z) = fst (fst x)"
      have "fst z \<le> fst s"
        using assms Cons that by (auto simp: sorted_append)
      then have "fst (fst z) \<le> fst (fst s)" by (rule fst_mono_lex)
      moreover have "fst (fst s) \<le> fst (fst x)" using sx by (rule fst_mono_lex)
      ultimately show False using eq False by simp
    qed
    then have "find (\<lambda>y. fst (fst y) = fst (fst x)) ss = None"
      unfolding find_None_iff by blast
    then show ?thesis using Cons False by simp
  qed
qed

lemma length_group_shift: "length (group_shift g v seen xs) = length xs"
  by (induction xs arbitrary: seen) simp_all

lemma group_shift_sorted_nth:
  fixes xs :: "(('a::linorder \<times> 'b::linorder) \<times> fl) list"
  assumes "sorted (map fst (rev seen @ xs))" "i < length xs"
  shows "group_shift (\<lambda>r. fst (fst r)) snd seen xs ! i
       = (case (if i = 0 then (case seen of [] \<Rightarrow> None | s # ss \<Rightarrow> Some s) else Some (xs ! (i - 1))) of
            None \<Rightarrow> NaN
          | Some s \<Rightarrow> if fst (fst s) = fst (fst (xs ! i)) then snd s else NaN)"
  using assms
proof (induction xs arbitrary: seen i)
  case Nil
  then show ?case by simp
next
  case (Cons x xs)
  show ?case
  proof (cases i)
    case 0
    have "sorted (map fst (rev seen @ [x]))"
      using Cons.prems(1) by (simp add: sorted_append)
    then show ?thesis
      using 0 by (simp add: find_same_group_sorted split: list.split)
  next
    case (Suc j)
    have "sorted (map fst (rev (x # seen) @ xs))"
      using Cons.prems(1) by simp
    moreover have "j < length xs" using Cons.prems(2) Suc by simp
    ultimately have "group_shift (\<lambda>r. fst (fst r)) snd (x # seen) xs ! j
       = (case (if j = 0 then Some x else Some (xs ! (j - 1))) of
            None \<Rightarrow> NaN
          | Some s \<Rightarrow> if fst (fst s) = fst (fst (xs ! j)) then snd s else NaN)"
      using Cons.IH [of "x # seen" j] by simp
    then show ?thesis using Suc by (cases j) simp_all
  qed
qed

lemma length_calculate_growth_rates:
  "length (calculate_growth_rates df) = length (groupby_sum country_year val df)"
  by (simp add: calculate_growth_rates_def Let_def length_group_shift)

lemma calculate_growth_rates_nth:
  assumes "i < length (groupby_sum country_year val df)"
  shows "calculate_growth_rates df ! i =
     \<lparr>y_country = fst (fst (groupby_sum country_year val df ! i)),
      y_year = snd (fst (groupby_sum country_year val df ! i)),
      y_value = snd (groupby_sum country_year val df ! i),
      prev_year_emissions = prev_total (groupby_sum country_year val df) i,
      growth_rate = pct_change (snd (groupby_sum country_year val df ! i))
                      (prev_total (groupby_sum country_year val df) i)\<rparr>"
proof -
  let ?xs = "groupby_sum country_year val df"
  have "sorted (map fst (rev [] @ ?xs))"
    using strict_sorted_groupby_sum [of country_year val df] by (simp add: strict_sorted_iff)
  then have "group_shift (\<lambda>r. fst (fst r)) snd [] ?xs ! i = prev_total ?xs i"
    using assms by (simp add: group_shift_sorted_nth prev_total_def)
  then show ?thesis
    using assms
    by (simp add: calculate_growth_rates_def Let_def sort_key_groupby_sum length_group_shift
        case_prod_beta)
qed

lemma pct_change_nan: "pct_change v NaN = NaN"
  by (cases v) (simp_all add: pct_change_def fsub_def)

lemma pct_change_zero:
  "pct_change v (Fin 0) = (case v of Fin x \<Rightarrow> if x = 0 then NaN else if 0 < x then PInf else NInf
                              | PInf \<Rightarrow> PInf | NInf \<Rightarrow> NInf | NaN \<Rightarrow> NaN)"
  by (cases v) (simp_all add: pct_change_def fsub_def)


lemma country_year_eq:
  "country_year x = Some (c, y) \<longleftrightarrow> country x = Some c \<and> year x = Some y"
  by (simp add: country_year_def split: option.split)

lemma lex_less_same_fst:
  "(a :: 'a::linorder \<times> 'b::linorder) < b \<Longrightarrow> fst a = fst b \<Longrightarrow> snd a < snd b"
  by (auto simp: less_prod_def)

lemma lex_le_same_fst:
  "(a :: 'a::linorder \<times> 'b::linorder) \<le> b \<Longrightarrow> fst a = fst b \<Longrightarrow> snd a \<le> snd b"
  by (auto simp: less_eq_prod_def)

lemma growth_row_facts:
  assumes "r \<in> set (calculate_growth_rates df)"
  obtains i where "i < length (groupby_sum country_year val df)"
    and "r = calculate_growth_rates df ! i"
    and "fst (groupby_sum country_year val df ! i) = (y_country r, y_year r)"
    and "y_value r = snd (groupby_sum country_year val df ! i)"
    and "prev_year_emissions r = prev_total (groupby_sum country_year val df) i"
    and "growth_rate r = pct_change (y_value r) (prev_year_emissions r)"
proof -
  from assms obtain i where i: "i < length (calculate_growth_rates df)"
      "r = calculate_growth_rates df ! i"
    by (auto simp: in_set_conv_nth)
  then have il: "i < length (groupby_sum country_year val df)"
    by (simp add: length_calculate_growth_rates)
  show ?thesis
    using that [OF il i(2)] i(2) calculate_growth_rates_nth [OF il] by simp
qed

text \<open>
  Claim C1, as amended. \<open>calculate_growth_rates\<close> has no failing branch. Every row it
  returns carries the total of its country and year. The growth rate of a country's
  first observed year is missing (NaN). When the total of the country's preceding
  observed year is zero, the growth rate is missing only if the year's own total is zero
  or NaN, and it is an infinity otherwise.
\<close>

theorem growth_rate_first_year_zero_base:
  "\<forall>r \<in> set (calculate_growth_rates df).
     y_value r = pd_sum (map val
         (filter (\<lambda>x. country x = Some (y_country r) \<and> year x = Some (y_year r)) df))
   \<and> ((\<forall>q \<in> set (calculate_growth_rates df).
           y_country q = y_country r \<longrightarrow> y_year r \<le> y_year q)
        \<longrightarrow> isna (prev_year_emissions r) \<and> isna (growth_rate r))
   \<and> (\<forall>p \<in> set (calculate_growth_rates df).
         y_country p = y_country r \<and> y_year p < y_year r \<and> y_value p = Fin 0
         \<and> (\<forall>q \<in> set (calculate_growth_rates df).
               y_country q = y_country r \<and> y_year q < y_year r \<longrightarrow> y_year q \<le> y_year p)
         \<longrightarrow> prev_year_emissions r = Fin 0
             \<and> (if y_value r = Fin 0 \<or> isna (y_value r) then isna (growth_rate r)
                 else isinf (growth_rate r)))"
proof
  let ?xs = "groupby_sum country_year val df"
  let ?out = "calculate_growth_rates df"
  fix r assume rin: "r \<in> set ?out"
  then obtain i where i: "i < length ?xs" "r = ?out ! i"
      and ki: "fst (?xs ! i) = (y_country r, y_year r)"
      and vi: "y_value r = snd (?xs ! i)"
      and pi: "prev_year_emissions r = prev_total ?xs i"
      and gi: "growth_rate r = pct_change (y_value r) (prev_year_emissions r)"
    by (rule growth_row_facts)
  have strict: "fst (?xs ! a) < fst (?xs ! b)" if "a < b" "b < length ?xs" for a b
    using sorted_wrt_nth_less [OF strict_sorted_groupby_sum [of country_year val df], of a b] that
    by simp
  have out_nth: "?out ! a \<in> set ?out" if "a < length ?xs" for a
    using that by (simp add: length_calculate_growth_rates)
  have key_nth: "fst (?xs ! a) = (y_country (?out ! a), y_year (?out ! a))" if "a < length ?xs" for a
    using calculate_growth_rates_nth [OF that] by simp
  have val_nth: "snd (?xs ! a) = y_value (?out ! a)" if "a < length ?xs" for a
    using calculate_growth_rates_nth [OF that] by simp

  have total: "y_value r = pd_sum (map val
         (filter (\<lambda>x. country x = Some (y_country r) \<and> year x = Some (y_year r)) df))"
  proof -
    have "?xs ! i \<in> set ?xs" using i(1) by simp
    then have "((y_country r, y_year r), y_value r) \<in> set ?xs"
      using ki vi by (metis prod.collapse)
    then show ?thesis
      by (simp add: groupby_sum_member country_year_eq)
  qed

  have first: "isna (prev_year_emissions r) \<and> isna (growth_rate r)"
    if least: "\<forall>q \<in> set ?out. y_country q = y_country r \<longrightarrow> y_year r \<le> y_year q"
  proof -
    have "prev_total ?xs i = NaN"
    proof (rule ccontr)
      assume "prev_total ?xs i \<noteq> NaN"
      then have pos: "0 < i" and same: "fst (fst (?xs ! (i - 1))) = fst (fst (?xs ! i))"
        by (auto simp: prev_total_def split: if_splits)
      have m: "i - 1 < length ?xs" using i(1) by simp
      have "fst (?xs ! (i - 1)) < fst (?xs ! i)"
        using strict [of "i - 1" i] pos i(1) by simp
      then have "snd (fst (?xs ! (i - 1))) < snd (fst (?xs ! i))"
        using same by (rule lex_less_same_fst)
      then have "y_year (?out ! (i - 1)) < y_year r"
        using key_nth [OF m] ki by simp
      moreover have "y_country (?out ! (i - 1)) = y_country r"
        using key_nth [OF m] ki same by simp
      ultimately show False
        using least out_nth [OF m] by fastforce
    qed
    then show ?thesis
      using pi gi by (simp add: isna_def pct_change_nan)
  qed

  have zero: "prev_year_emissions r = Fin 0
             \<and> (if y_value r = Fin 0 \<or> isna (y_value r) then isna (growth_rate r)
                 else isinf (growth_rate r))"
    if pin: "p \<in> set ?out" and pc: "y_country p = y_country r" and py: "y_year p < y_year r"
      and pz: "y_value p = Fin 0"
      and none: "\<forall>q \<in> set ?out. y_country q = y_country r \<and> y_year q < y_year r
                    \<longrightarrow> y_year q \<le> y_year p"
    for p
  proof -
    from pin obtain j where j: "j < length ?xs" "p = ?out ! j"
        and kj: "fst (?xs ! j) = (y_country p, y_year p)"
        and vj: "y_value p = snd (?xs ! j)"
      by (rule growth_row_facts)
    have kji: "fst (?xs ! j) < fst (?xs ! i)"
      using kj ki pc py by (simp add: less_prod_def)
    have ji: "j < i"
    proof (rule ccontr)
      assume "\<not> j < i"
      then consider "i = j" | "i < j" by linarith
      then show False
      proof cases
        case 1
        then show ?thesis using kji by simp
      next
        case 2
        then show ?thesis using strict [of i j] j(1) kji by simp
      qed
    qed
    define m where "m = i - 1"
    have m: "m < length ?xs" "m < i" "j \<le> m"
      using ji i(1) by (simp_all add: m_def)
    have km_lt: "fst (?xs ! m) < fst (?xs ! i)"
      using strict [of m i] m i(1) by simp
    have km_ge: "fst (?xs ! j) \<le> fst (?xs ! m)"
    proof (cases "j = m")
      case True
      then show ?thesis by simp
    next
      case False
      then have "j < m" using m(3) by simp
      then show ?thesis using strict [of j m] m(1) by simp
    qed
    have cm: "fst (fst (?xs ! m)) = y_country r"
    proof -
      have "fst (fst (?xs ! j)) \<le> fst (fst (?xs ! m))"
        using km_ge by (rule fst_mono_lex)
      moreover have "fst (fst (?xs ! m)) \<le> fst (fst (?xs ! i))"
        using km_lt by (intro fst_mono_lex) simp
      ultimately show ?thesis using kj ki pc by simp
    qed
    have ym_lt: "snd (fst (?xs ! m)) < y_year r"
      using lex_less_same_fst [OF km_lt] cm ki by simp
    have ym_ge: "y_year p \<le> snd (fst (?xs ! m))"
      using lex_le_same_fst [OF km_ge] cm kj pc by simp
    have "y_year (?out ! m) \<le> y_year p"
      using none out_nth [OF m(1)] key_nth [OF m(1)] cm ym_lt by fastforce
    then have "snd (fst (?xs ! m)) = y_year p"
      using ym_ge key_nth [OF m(1)] by simp
    then have "fst (?xs ! m) = fst (?xs ! j)"
      using cm kj pc by (simp add: prod_eq_iff)
    then have "m = j"
      using strict [of j m] m by (cases "j = m") auto
    then have "prev_total ?xs i = snd (?xs ! j)"
      using ji cm ki by (simp add: prev_total_def m_def)
    then have prev: "prev_year_emissions r = Fin 0"
      using pi vj pz by simp
    show ?thesis
      using prev gi
      by (cases "y_value r") (simp_all add: pct_change_zero isna_def isinf_def)
  qed

  show "y_value r = pd_sum (map val
         (filter (\<lambda>x. country x = Some (y_country r) \<and> year x = Some (y_year r)) df))
   \<and> ((\<forall>q \<in> set ?out. y_country q = y_country r \<longrightarrow> y_year r \<le> y_year q)
        \<longrightarrow> isna (prev_year_emissions r) \<and> isna (growth_rate r))
   \<and> (\<forall>p \<in> set ?out.
         y_country p = y_country r \<and> y_year p < y_year r \<and> y_value p = Fin 0
         \<and> (\<forall>q \<in> set ?out.
               y_country q = y_country r \<and> y_year q < y_year r \<longrightarrow> y_year q \<le> y_year p)
         \<longrightarrow> prev_year_emissions r = Fin 0
             \<and> (if y_value r = Fin 0 \<or> isna (y_value r) then isna (growth_rate r)
                 else isinf (growth_rate r)))"
    using total first zero by blast
qed


lemma ex_zero_base_growth:
  "calculate_growth_rates ex_zero_base =
     [\<lparr>y_country = ''B'', y_year = 2020, y_value = Fin 0, prev_year_emissions = NaN,
        growth_rate = NaN\<rparr>,
      \<lparr>y_country = ''B'', y_year = 2021, y_value = Fin 12, prev_year_emissions = Fin 0,
        growth_rate = PInf\<rparr>]"
  by code_simp

text \<open>
  A cleaned frame on which the claim fails as stated: the total of 2020 is zero, and the
  growth rate of 2021 is plus infinity, not missing.
\<close>

theorem growth_rate_zero_base_counterexample:
  "cleaned ex_zero_base
   \<and> y_value (calculate_growth_rates ex_zero_base ! 0) = Fin 0
   \<and> y_country (calculate_growth_rates ex_zero_base ! 0) = y_country (calculate_growth_rates ex_zero_base ! 1)
   \<and> y_year (calculate_growth_rates ex_zero_base ! 0) = 2020
   \<and> y_year (calculate_growth_rates ex_zero_base ! 1) = 2021
   \<and> growth_rate (calculate_growth_rates ex_zero_base ! 1) = PInf
   \<and> \<not> isna (growth_rate (calculate_growth_rates ex_zero_base ! 1))"
  unfolding ex_zero_base_growth
  by (simp add: cleaned_def critical_ok_def derived_ok_def ex_zero_base_def mk_def isna_def)

theorem growth_rate_first_year_zero_base_witness:
  "isna (growth_rate (calculate_growth_rates ex_zero_base ! 0))
   \<and> prev_year_emissions (calculate_growth_rates ex_zero_base ! 1) = Fin 0
   \<and> isinf (growth_rate (calculate_growth_rates ex_zero_base ! 1))
   \<and> y_value (calculate_growth_rates ex_zero_base ! 1) = Fin 12"
  using growth_rate_first_year_zero_base [of ex_zero_base]
  unfolding ex_zero_base_growth
  by (simp add: isna_def isinf_def pd_sum_def ex_zero_base_def mk_def)


section \<open>Properties of the chart methods\<close>

text \<open>
  Claim C10. On a frame of observations, \<open>create_comparison_chart\<close> with a metric that
  is neither \<open>'total'\<close> nor \<open>'average'\<close> raises \<open>UnboundLocalError\<close>: neither branch has bound
  \<open>data\<close> when \<open>px.bar\<close> is called, and no figure is returned.
\<close>

theorem comparison_unknown_metric:
  assumes "obs_at h (data self) = Some (cols, df)" "metric \<noteq> ''total''" "metric \<noteq> ''average''"
  shows "fst (create_comparison_chart countries metric self h) = Inl UnboundLocalError"
  using assms by (simp add: create_comparison_chart_def alloc_def Let_def)

theorem comparison_unknown_metric_witness:
  "fst (create_comparison_chart [''A'', ''B''] ''median'' viz h0) = Inl UnboundLocalError
   \<and> obs_at h0 (data viz) = Some (obs_columns, ex_two)"
proof -
  have a: "obs_at h0 (data viz) = Some (obs_columns, ex_two)"
    by (simp add: obs_at_def h0_def viz_def)
  have b: "''median'' \<noteq> ''total''" and c: "''median'' \<noteq> ''average''"
    by simp_all
  show ?thesis
    using comparison_unknown_metric [OF a b c, of "[''A'', ''B'']"] a by simp
qed

lemmas heap_ops = alloc_def put_def set_columns_def Let_def split_def

lemma unchanged_refl [simp]: "unchanged h h"
  by (simp add: unchanged_def)

lemma run_unchanged: "unchanged h (snd (run c self h))"
proof (cases c)
  case (TopEmittersBar n y)
  then show ?thesis
    by (simp add: create_top_emitters_bar_def heap_ops unchanged_def split: option.split)
next
  case GlobalTrend
  then show ?thesis
    by (simp add: create_global_trend_def heap_ops unchanged_def split: option.split)
next
  case (CountryTrends cs)
  then show ?thesis
    by (simp add: create_country_trends_def heap_ops unchanged_def split: option.split)
next
  case (SectoralBreakdown c)
  then show ?thesis
    by (simp add: create_sectoral_breakdown_def heap_ops unchanged_def split: option.split)
next
  case SectoralTrend
  then show ?thesis
    by (simp add: create_sectoral_trend_def heap_ops unchanged_def split: option.split)
next
  case AnimatedMap
  then show ?thesis
    by (simp add: create_animated_map_def heap_ops unchanged_def split: option.split)
next
  case (GrowthRateChart n)
  then show ?thesis
    by (simp add: create_growth_rate_chart_def heap_ops unchanged_def split: option.split)
next
  case (PieChart cs y)
  then show ?thesis
    by (simp add: create_pie_chart_def heap_ops unchanged_def split: option.split)
next
  case (ComparisonChart cs m)
  then show ?thesis
    by (simp add: create_comparison_chart_def heap_ops unchanged_def split: option.split)
next
  case (HeatmapChart cs n)
  then show ?thesis
    by (simp add: create_heatmap_def heap_ops unchanged_def split: option.split)
qed

lemma run_reads_data:
  assumes "obs_at h' (data self) = obs_at h (data self)"
  shows "fst (run c self h') = fst (run c self h)"
proof (cases c)
  case (TopEmittersBar n y)
  then show ?thesis using assms
    by (simp add: create_top_emitters_bar_def heap_ops split: option.split)
next
  case GlobalTrend
  then show ?thesis using assms
    by (simp add: create_global_trend_def heap_ops split: option.split)
next
  case (CountryTrends cs)
  then show ?thesis using assms
    by (simp add: create_country_trends_def heap_ops split: option.split)
next
  case (SectoralBreakdown c)
  then show ?thesis using assms
    by (simp add: create_sectoral_breakdown_def heap_ops split: option.split)
next
  case SectoralTrend
  then show ?thesis using assms
    by (simp add: create_sectoral_trend_def heap_ops split: option.split)
next
  case AnimatedMap
  then show ?thesis using assms
    by (simp add: create_animated_map_def heap_ops split: option.split)
next
  case (GrowthRateChart n)
  then show ?thesis using assms
    by (simp add: create_growth_rate_chart_def heap_ops split: option.split)
next
  case (PieChart cs y)
  then show ?thesis using assms
    by (simp add: create_pie_chart_def heap_ops split: option.split)
next
  case (ComparisonChart cs m)
  then show ?thesis using assms
    by (simp add: create_comparison_chart_def heap_ops nth_append split: option.split)
next
  case (HeatmapChart cs n)
  then show ?thesis using assms
    by (simp add: create_heatmap_def heap_ops split: option.split)
qed


lemma run_no_data: "obs_at h (data self) = None \<Longrightarrow> run c self h = (Inl KeyError, h)"
  by (cases c)
    (simp_all add: create_top_emitters_bar_def create_global_trend_def create_country_trends_def
      create_sectoral_breakdown_def create_sectoral_trend_def create_animated_map_def
      create_growth_rate_chart_def create_pie_chart_def create_comparison_chart_def
      create_heatmap_def)

lemma unchanged_length: "unchanged h h' \<Longrightarrow> length h \<le> length h'"
proof -
  assume "unchanged h h'"
  then have "length (take (length h) h') = length h"
    by (simp add: unchanged_def)
  then show ?thesis by simp
qed

lemma unchanged_nth: "unchanged h h' \<Longrightarrow> a < length h \<Longrightarrow> h' ! a = h ! a"
  unfolding unchanged_def by (metis nth_take)

lemma unchanged_trans: "unchanged h h1 \<Longrightarrow> unchanged h1 h2 \<Longrightarrow> unchanged h h2"
proof -
  assume a: "unchanged h h1" and b: "unchanged h1 h2"
  have "take (length h) h2 = take (length h) (take (length h1) h2)"
    using unchanged_length [OF a] by (simp add: min_def)
  also have "\<dots> = take (length h) h1"
    using b by (simp add: unchanged_def)
  also have "\<dots> = h"
    using a by (simp add: unchanged_def)
  finally show ?thesis by (simp add: unchanged_def)
qed

lemma obs_at_unchanged:
  assumes "unchanged h h'" "obs_at h a = Some x"
  shows "obs_at h' a = Some x"
proof -
  have a: "a < length h"
    using assms(2) by (simp add: obs_at_def split: if_splits)
  then have "a < length h'" "h' ! a = h ! a"
    using unchanged_length [OF assms(1)] unchanged_nth [OF assms(1)] by simp_all
  then show ?thesis
    using assms(2) a by (simp add: obs_at_def split: payload.splits)
qed

lemma run_obs_at: "obs_at (snd (run c self h)) (data self) = obs_at h (data self)"
proof (cases "obs_at h (data self)")
  case None
  then show ?thesis by (simp add: run_no_data)
next
  case (Some x)
  then show ?thesis
    using obs_at_unchanged [OF run_unchanged] by simp
qed

lemma run_all_obs_at: "obs_at (snd (run_all cs self h)) (data self) = obs_at h (data self)"
proof (induction cs arbitrary: h)
  case Nil
  then show ?case by simp
next
  case (Cons c cs)
  have "obs_at (snd (run_all cs self (snd (run c self h)))) (data self)
      = obs_at (snd (run c self h)) (data self)"
    by (rule Cons.IH)
  then show ?case
    by (simp add: split_def Let_def run_obs_at)
qed

lemma run_all_unchanged: "unchanged h (snd (run_all cs self h))"
proof (induction cs arbitrary: h)
  case Nil
  then show ?case by simp
next
  case (Cons c cs)
  have "unchanged h (snd (run c self h))"
    by (rule run_unchanged)
  moreover have "unchanged (snd (run c self h)) (snd (run_all cs self (snd (run c self h))))"
    by (rule Cons.IH)
  ultimately have "unchanged h (snd (run_all cs self (snd (run c self h))))"
    by (rule unchanged_trans)
  then show ?case
    by (simp add: split_def Let_def)
qed

text \<open>
  Claim C9. Whatever chart method is called, with whatever arguments, every frame that was
  in the heap before the call, \<open>self.data\<close> among them, is in it afterwards unchanged; the
  same holds after any sequence of calls, and a call made after such a sequence returns
  what it would have returned before it.
\<close>

theorem chart_calls_leave_data_unchanged:
  "unchanged h (snd (run c self h))
   \<and> obs_at (snd (run c self h)) (data self) = obs_at h (data self)
   \<and> unchanged h (snd (run_all cs self h))
   \<and> obs_at (snd (run_all cs self h)) (data self) = obs_at h (data self)
   \<and> fst (run c self (snd (run_all cs self h))) = fst (run c self h)"
  using run_unchanged run_obs_at run_all_unchanged run_all_obs_at
    run_reads_data [OF run_all_obs_at]
  by simp


lemma col_max_None: "col_max ys = None \<longleftrightarrow> ys = []"
  by (simp add: col_max_def split: list.split)

lemma col_max_Some:
  assumes "col_max ys = Some m"
  shows "m \<in> set ys \<and> (\<forall>y \<in> set ys. y \<le> m)"
proof (cases ys)
  case Nil
  then show ?thesis using assms by (simp add: col_max_def)
next
  case (Cons y ys')
  then have "m = Max (set ys)"
    using assms Max.set_eq_fold [of y ys'] by (simp add: col_max_def)
  moreover have "finite (set ys)" "set ys \<noteq> {}"
    using Cons by simp_all
  ultimately show ?thesis
    using Max_in Max_ge by blast
qed









lemma recent_rows_window:
  "(case col_max (map y_year table) of
      None \<Rightarrow> []
    | Some m \<Rightarrow> filter (\<lambda>r. m - 5 \<le> y_year r) table)
   = filter (in_recent_window table) table"
proof (cases "col_max (map y_year table)")
  case None
  then have "table = []" by (simp add: col_max_None)
  then show ?thesis using None by simp
next
  case (Some m)
  from col_max_Some [OF Some]
  have top: "\<forall>q \<in> set table. y_year q \<le> m" and hit: "\<exists>q \<in> set table. y_year q = m"
    by auto
  have "(m - 5 \<le> y_year r) = in_recent_window table r" for r
    unfolding in_recent_window_def using top hit by fastforce
  then show ?thesis using Some by simp
qed

lemma map_fst_groupby_mean: "map fst (groupby_mean key v df) = group_keys key df"
  by (simp add: groupby_mean_def comp_def)

lemma groupby_mean_member:
  "(k, t) \<in> set (groupby_mean key v df) \<longleftrightarrow>
     (\<exists>r \<in> set df. key r = Some k) \<and> t = pd_mean (map v (filter (\<lambda>r. key r = Some k) df))"
  by (auto simp: groupby_mean_def set_group_keys)

lemma pd_mean_present:
  "pd_mean xs =
     (if filter (\<lambda>x. \<not> isna x) xs = [] then NaN
      else fdiv (sum_list (filter (\<lambda>x. \<not> isna x) xs))
             (Fin (real (length (filter (\<lambda>x. \<not> isna x) xs)))))"
  by (simp add: pd_mean_def Let_def pd_sum_sum_list)

lemma growth_chart_figure:
  assumes "obs_at h (data self) = Some (cols, df)"
  shows "fst (create_growth_rate_chart n self h)
       = Inr \<lparr>kind = Bar,
              source = \<lparr>columns = [''country'', ''growth_rate''],
                        payload = PNamed (head n (sort_values_desc snd
                          (groupby_mean (\<lambda>r. Some (y_country r)) growth_rate
                             (filter (in_recent_window (calculate_growth_rates df))
                                (calculate_growth_rates df)))))\<rparr>,
              bindings = [''growth_rate'', ''country'', ''growth_rate'']\<rparr>"
  using assms
  by (simp add: create_growth_rate_chart_def heap_ops nth_append px_def
      recent_rows_window [symmetric] calculate_growth_rates_def split: option.split)


text \<open>
  Claim C7. On a frame of observations \<open>create_growth_rate_chart\<close> returns the first
  \<open>n\<close> rows of a ranking of countries: the countries that have a yearly total in the
  window from the latest year minus five to the latest year, each once, in descending
  order of their average growth rate (an average that is NaN last), the average being
  taken over the country's growth rates in the window that are present: the sum of those
  that are not NaN divided by their number, and NaN when there is none.
\<close>

theorem growth_rate_chart_ranking:
  assumes "obs_at h (data self) = Some (cols, df)"
  shows "\<exists>ranking.
     fst (create_growth_rate_chart n self h)
       = Inr \<lparr>kind = Bar,
              source = \<lparr>columns = [''country'', ''growth_rate''],
                        payload = PNamed (head n ranking)\<rparr>,
              bindings = [''growth_rate'', ''country'', ''growth_rate'']\<rparr>
   \<and> (0 \<le> n \<longrightarrow> head n ranking = take (nat n) ranking)
   \<and> sorted_wrt (\<lambda>a b. desc_order (snd a) (snd b)) ranking
   \<and> distinct (map fst ranking)
   \<and> set (map fst ranking)
       = {c. \<exists>r \<in> set (calculate_growth_rates df).
               in_recent_window (calculate_growth_rates df) r \<and> y_country r = c}
   \<and> (\<forall>(c, g) \<in> set ranking.
         g = (let present = filter (\<lambda>x. \<not> isna x) (map growth_rate
                    (filter (\<lambda>r. in_recent_window (calculate_growth_rates df) r
                               \<and> y_country r = c) (calculate_growth_rates df)))
              in if present = [] then NaN
                 else fdiv (sum_list present) (Fin (real (length present)))))"
proof -
  define G where "G = calculate_growth_rates df"
  define avg where "avg = groupby_mean (\<lambda>r. Some (y_country r)) growth_rate
                            (filter (in_recent_window G) G)"
  define ranking where "ranking = sort_values_desc snd avg"
  have fig: "fst (create_growth_rate_chart n self h)
       = Inr \<lparr>kind = Bar,
              source = \<lparr>columns = [''country'', ''growth_rate''],
                        payload = PNamed (head n ranking)\<rparr>,
              bindings = [''growth_rate'', ''country'', ''growth_rate'']\<rparr>"
    using growth_chart_figure [OF assms, of n] by (simp add: ranking_def avg_def G_def)
  have top: "0 \<le> n \<longrightarrow> head n ranking = take (nat n) ranking"
    by (simp add: head_def)
  have ord: "sorted_wrt (\<lambda>a b. desc_order (snd a) (snd b)) ranking"
    by (simp add: ranking_def sorted_sort_values_desc)
  have perm: "mset (map fst ranking) = mset (map fst avg)"
    by (simp add: ranking_def mset_sort_values_desc)
  have keys: "map fst avg = group_keys (\<lambda>r. Some (y_country r)) (filter (in_recent_window G) G)"
    by (simp add: avg_def map_fst_groupby_mean)
  have dist: "distinct (map fst ranking)"
    using mset_eq_imp_distinct_iff [OF perm] keys by (simp add: distinct_group_keys)
  have names: "set (map fst ranking)
       = {c. \<exists>r \<in> set G. in_recent_window G r \<and> y_country r = c}"
  proof -
    have "set (map fst ranking) = set (map fst avg)"
      using mset_eq_setD [OF perm] .
    then show ?thesis
      by (auto simp: keys set_group_keys)
  qed
  have means: "\<forall>(c, g) \<in> set ranking.
         g = (let present = filter (\<lambda>x. \<not> isna x) (map growth_rate
                    (filter (\<lambda>r. in_recent_window G r \<and> y_country r = c) G))
              in if present = [] then NaN
                 else fdiv (sum_list present) (Fin (real (length present))))"
  proof (clarify)
    fix c g assume "(c, g) \<in> set ranking"
    then have "(c, g) \<in> set avg"
      by (simp add: ranking_def set_sort_values_desc)
    then have "g = pd_mean (map growth_rate
                (filter (\<lambda>r. in_recent_window G r \<and> y_country r = c) G))"
      by (simp add: avg_def groupby_mean_member conj_commute)
    then show "g = (let present = filter (\<lambda>x. \<not> isna x) (map growth_rate
                    (filter (\<lambda>r. in_recent_window G r \<and> y_country r = c) G))
              in if present = [] then NaN
                 else fdiv (sum_list present) (Fin (real (length present))))"
      by (simp add: pd_mean_present Let_def)
  qed
  show ?thesis
    using fig top ord dist names means unfolding G_def by blast
qed

lemma ex_growth_rates:
  "calculate_growth_rates ex_growth =
     [\<lparr>y_country = ''A'', y_year = 2020, y_value = Fin 100, prev_year_emissions = NaN, growth_rate = NaN\<rparr>,
      \<lparr>y_country = ''A'', y_year = 2021, y_value = Fin 150, prev_year_emissions = Fin 100, growth_rate = Fin 50\<rparr>,
      \<lparr>y_country = ''A'', y_year = 2022, y_value = Fin 120, prev_year_emissions = Fin 150, growth_rate = Fin (- 20)\<rparr>,
      \<lparr>y_country = ''B'', y_year = 2022, y_value = Fin 7, prev_year_emissions = NaN, growth_rate = NaN\<rparr>,
      \<lparr>y_country = ''C'', y_year = 2010, y_value = Fin 1, prev_year_emissions = NaN, growth_rate = NaN\<rparr>,
      \<lparr>y_country = ''C'', y_year = 2011, y_value = Fin 3, prev_year_emissions = Fin 1, growth_rate = Fin 200\<rparr>]"
  by code_simp

theorem growth_rate_chart_ranking_witness:
  "fst (create_growth_rate_chart 5 viz heap_growth)
     = Inr \<lparr>kind = Bar,
            source = \<lparr>columns = [''country'', ''growth_rate''],
                      payload = PNamed [(''A'', Fin 15), (''B'', NaN)]\<rparr>,
            bindings = [''growth_rate'', ''country'', ''growth_rate'']\<rparr>
   \<and> map growth_rate (calculate_growth_rates ex_growth)
       = [NaN, Fin 50, Fin (- 20), NaN, NaN, Fin 200]
   \<and> filter (in_recent_window (calculate_growth_rates ex_growth)) (calculate_growth_rates ex_growth)
       = take 4 (calculate_growth_rates ex_growth)"
proof -
  have a: "obs_at heap_growth (data viz) = Some (obs_columns, ex_growth)"
    by (simp add: obs_at_def heap_growth_def viz_def)
  have win: "filter (in_recent_window (calculate_growth_rates ex_growth)) (calculate_growth_rates ex_growth)
       = take 4 (calculate_growth_rates ex_growth)"
    unfolding ex_growth_rates by (simp add: in_recent_window_def)
  have rank: "head 5 (sort_values_desc snd
                 (groupby_mean (\<lambda>r. Some (y_country r)) growth_rate
                    (take 4 (calculate_growth_rates ex_growth))))
            = [(''A'', Fin 15), (''B'', NaN)]"
    unfolding ex_growth_rates by code_simp
  have fig: "fst (create_growth_rate_chart 5 viz heap_growth)
     = Inr \<lparr>kind = Bar,
            source = \<lparr>columns = [''country'', ''growth_rate''],
                      payload = PNamed [(''A'', Fin 15), (''B'', NaN)]\<rparr>,
            bindings = [''growth_rate'', ''country'', ''growth_rate'']\<rparr>"
    unfolding growth_chart_figure [OF a] win rank ..
  have gr: "map growth_rate (calculate_growth_rates ex_growth)
       = [NaN, Fin 50, Fin (- 20), NaN, NaN, Fin 200]"
    unfolding ex_growth_rates by simp
  from growth_rate_chart_ranking [OF a, of 5] obtain ranking where
    r: "fst (create_growth_rate_chart 5 viz heap_growth)
       = Inr \<lparr>kind = Bar,
              source = \<lparr>columns = [''country'', ''growth_rate''],
                        payload = PNamed (head 5 ranking)\<rparr>,
              bindings = [''growth_rate'', ''country'', ''growth_rate'']\<rparr>"
    by (elim exE conjE)
  show ?thesis
    using r fig gr win by simp
qed

end
